theory Spec2Isabelle
  imports Main
begin

section \<open>The MCP chat client of \<^verbatim>\<open>src/client.ts\<close>\<close>

text \<open>
  The client is sequential glue between four outside parties: the MCP protocol client
  (\<^verbatim>\<open>this.mcp\<close>), the chat-completion client (\<^verbatim>\<open>this.openai\<close>), the terminal
  (\<^verbatim>\<open>readline\<close>, \<^verbatim>\<open>console.log\<close>) and the process. Each \<^verbatim>\<open>await\<close> of the source is a
  blocking call here; what a call returns is decided by the outside party, so the
  parties are parameters of the model (the record \<open>world\<close> below), and every call is
  written, with what it returned, to a history of events that the claims talk about.

  Strings are sequences of code units below 256 (Isabelle's \<open>char\<close>); a JavaScript
  value the client only passes along (parsed arguments, a tool's result content, a
  schema property, an environment value) is a value of the type parameter \<open>'v\<close>.
\<close>

subsection \<open>Errors\<close>

text \<open>
  What a \<^verbatim>\<open>throw\<close> or a rejected promise carries: the two errors the language itself
  raises in this file, and whatever an outside party rejects with.
\<close>

datatype error =
    TypeError
  | SyntaxError
  | Rejected string

subsection \<open>Data\<close>

text \<open>\<^verbatim>\<open>interface McpServer\<close> (lines 12-17).\<close>

datatype transport_kind = stdio | sse

record 'v McpServer =
  server_type :: "transport_kind option"
  command :: string
  args :: "string list"
  env :: "(string \<times> 'v) list option"

text \<open>The parameters \<^verbatim>\<open>connectToServer\<close> builds the \<^verbatim>\<open>StdioClientTransport\<close> from.\<close>

record 'v StdioServerParameters =
  sp_command :: string
  sp_args :: "string list"
  sp_env :: "(string \<times> 'v) list option"

text \<open>
  A tool as a server lists it (\<^verbatim>\<open>toolsResult.tools\<close>): its input schema is an object
  schema that carries its own list of required property names.
\<close>

record 'v inputSchema =
  schema_type :: string
  properties :: "(string \<times> 'v) list option"
  schema_required :: "string list option"

record 'v McpTool =
  mcp_name :: string
  mcp_description :: "string option"
  mcp_inputSchema :: "'v inputSchema"

text \<open>\<^verbatim>\<open>interface Tool\<close> (lines 31-49): an entry of the catalog sent to the chat API.\<close>

record 'v ToolFunction =
  name :: string
  description :: "string option"
  parameters :: "'v inputSchema option"
  strict :: "bool option"
  required :: "string list option"

record 'v Tool =
  tool_type :: string
  fn :: "'v ToolFunction"

text \<open>
  A tool call of an assistant message, and the messages of a conversation
  (\<^verbatim>\<open>ChatCompletionMessageParam\<close>). The source builds user and tool messages only.
\<close>

record FunctionCall =
  call_name :: string
  arguments :: string

record ToolCall =
  call_id :: string
  call_function :: FunctionCall

datatype 'v ChatMessage =
    UserMessage string
  | AssistantMessage "string option" "ToolCall list option"
  | ToolMessage 'v string

text \<open>
  A completion: \<^verbatim>\<open>response.choices[i].message\<close> with \<^verbatim>\<open>content\<close> (a string or
  \<^verbatim>\<open>null\<close>) and the optional \<^verbatim>\<open>tool_calls\<close>.
\<close>

record ResponseMessage =
  content :: "string option"
  tool_calls :: "ToolCall list option"

record Choice =
  message :: ResponseMessage

record ChatCompletion =
  choices :: "Choice list"

text \<open>The argument of \<^verbatim>\<open>chat.completions.create\<close>; \<^verbatim>\<open>stop: null\<close> is \<open>None\<close>.\<close>

record 'v CompletionParams =
  model :: string
  messages :: "'v ChatMessage list"
  max_tokens :: nat
  stop :: "string option"
  tools_param :: "'v Tool list option"

text \<open>What \<^verbatim>\<open>this.mcp.callTool\<close> resolves to; the client reads \<^verbatim>\<open>content\<close> only.\<close>

record 'v CallToolResult =
  result_content :: 'v
  isError :: "bool option"

subsection \<open>Events and the outside world\<close>

text \<open>The arguments of a \<^verbatim>\<open>console.log\<close> call.\<close>

datatype 'v log_arg =
    LStr string
  | LNames "string list"
  | LServer "'v McpServer"
  | LErr error

text \<open>
  One event per interaction with the outside, in program order, with the outcome of the
  call where it has one. \<open>Connect p r\<close> is the call \<^verbatim>\<open>this.mcp.connect(transport)\<close> of line 76
  with the way its promise is settled, \<open>Question p None\<close> a prompt that no line answers
  because the input has ended.
\<close>

datatype 'v event =
    Connect "'v StdioServerParameters" "error + unit"
  | ListTools "error + 'v McpTool list"
  | Create "'v CompletionParams" "error + ChatCompletion"
  | CallTool string 'v "error + 'v CallToolResult"
  | ConsoleLog "'v log_arg list"
  | Question string "string option"
  | RlClose
  | Close "error + unit"
  | Exit int

text \<open>
  The outside parties. Each answers from the history so far and the request, so a party
  may answer the same request differently at different times. \<open>JSON_parse\<close> is the
  language's \<^verbatim>\<open>JSON.parse\<close>: \<open>None\<close> when it throws its \<^verbatim>\<open>SyntaxError\<close>. \<open>connect\<close> is how
  the promise of \<^verbatim>\<open>this.mcp.connect\<close> is settled (the child process is spawned and the
  handshake made, or not). \<open>keeps_alive\<close> says whether, once the input has ended, something
  still keeps the process running (the child process of a server).
\<close>

record 'v world =
  JSON_parse :: "string \<Rightarrow> 'v option"
  connect :: "'v event list \<Rightarrow> 'v StdioServerParameters \<Rightarrow> error + unit"
  listTools :: "'v event list \<Rightarrow> error + 'v McpTool list"
  create :: "'v event list \<Rightarrow> 'v CompletionParams \<Rightarrow> error + ChatCompletion"
  callTool :: "'v event list \<Rightarrow> string \<Rightarrow> 'v \<Rightarrow> error + 'v CallToolResult"
  close :: "'v event list \<Rightarrow> error + unit"
  keeps_alive :: "'v event list \<Rightarrow> bool"

text \<open>
  \<^verbatim>\<open>class MCPClient\<close>: its one mutable field, and the history of events of the run.
\<close>

record 'v MCPClient =
  tools :: "'v Tool list"
  trace :: "'v event list"

definition emit :: "'v event \<Rightarrow> 'v MCPClient \<Rightarrow> 'v MCPClient" where
  "emit e this = this\<lparr>trace := trace this @ [e]\<rparr>"

subsection \<open>Library functions of the language\<close>

text \<open>\<^verbatim>\<open>Array.prototype.join\<close> on an array of strings.\<close>

fun join :: "string \<Rightarrow> string list \<Rightarrow> string" where
  "join sep [] = []"
| "join sep [x] = x"
| "join sep (x # y # ys) = x @ sep @ join sep (y # ys)"

text \<open>
  \<^verbatim>\<open>JSON.stringify\<close> of a string (\<^verbatim>\<open>QuoteJSONString\<close>): the string in double quotes,
  with the quote, the backslash and the control characters escaped.
\<close>

definition hex_digit :: "nat \<Rightarrow> char" where
  "hex_digit n = ''0123456789abcdef'' ! (n mod 16)"

definition quote_char :: "char \<Rightarrow> string" where
  "quote_char c =
     (if c = CHR 0x08 then [CHR 0x5C, CHR ''b'']
      else if c = CHR 0x09 then [CHR 0x5C, CHR ''t'']
      else if c = CHR 0x0A then [CHR 0x5C, CHR ''n'']
      else if c = CHR 0x0C then [CHR 0x5C, CHR ''f'']
      else if c = CHR 0x0D then [CHR 0x5C, CHR ''r'']
      else if c = CHR 0x22 then [CHR 0x5C, CHR 0x22]
      else if c = CHR 0x5C then [CHR 0x5C, CHR 0x5C]
      else if of_char c < (0x20 :: nat)
        then [CHR 0x5C, CHR ''u'', CHR ''0'', CHR ''0'',
              hex_digit (of_char c div 16), hex_digit (of_char c)]
      else [c])"

definition JSON_stringify :: "string \<Rightarrow> string" where
  "JSON_stringify s = CHR 0x22 # concat (map quote_char s) @ [CHR 0x22]"

text \<open>
  \<^verbatim>\<open>String.prototype.toLowerCase\<close> on code units below 256: the letters A-Z and the
  capital letters of Latin-1 (0xC0-0xDE but the multiplication sign 0xD7) move up by
  0x20, every other code unit stays.
\<close>

definition lower_char :: "char \<Rightarrow> char" where
  "lower_char c =
     (let n = (of_char c :: nat)
      in if (0x41 \<le> n \<and> n \<le> 0x5A) \<or> (0xC0 \<le> n \<and> n \<le> 0xDE \<and> n \<noteq> 0xD7)
         then char_of (n + 0x20) else c)"

definition toLowerCase :: "string \<Rightarrow> string" where
  "toLowerCase s = map lower_char s"

text \<open>\<^verbatim>\<open>content || ""\<close>: \<^verbatim>\<open>null\<close> (and the empty string) give the empty string.\<close>

definition or_empty :: "string option \<Rightarrow> string" where
  "or_empty c = (case c of None \<Rightarrow> [] | Some s \<Rightarrow> s)"

subsection \<open>\<^verbatim>\<open>connectToServer\<close> (lines 67-102)\<close>

text \<open>The translation of one listed tool into a catalog entry (the \<^verbatim>\<open>map\<close> of lines 80-91).\<close>

definition toTool :: "'v McpTool \<Rightarrow> 'v Tool" where
  "toTool tool =
     \<lparr>tool_type = ''function'',
      fn = \<lparr>name = mcp_name tool,
            description = mcp_description tool,
            parameters = Some (mcp_inputSchema tool),
            strict = Some True,
            required = Some []\<rparr>\<rparr>"

text \<open>
  How an asynchronous function of the startup ends: it returns, it throws, or the
  process dies under it. The last is what node does with a rejected promise that nothing
  awaits or catches: it ends the process with status 1, and no \<^verbatim>\<open>catch\<close> or \<^verbatim>\<open>finally\<close>
  of the program runs.
\<close>

datatype 'a ending = Returns 'a | Throws error | Dies error

text \<open>
  The transport is built from the command, the arguments and the environment of the
  entry. \<^verbatim>\<open>this.mcp.connect\<close> is started and not awaited (line 76): when its promise is
  rejected, the rejection is unhandled and the process dies. The model lets the
  rejection arrive while \<^verbatim>\<open>listTools\<close> is awaited (line 78), the first await after the
  promise is started and the request that needs the connection. With the connection
  made, the first call that can fail inside the \<^verbatim>\<open>try\<close> is \<^verbatim>\<open>listTools\<close>; the \<^verbatim>\<open>catch\<close> logs
  and throws again.
\<close>

definition connectToServer ::
  "'v world \<Rightarrow> 'v MCPClient \<Rightarrow> 'v McpServer \<Rightarrow> unit ending \<times> 'v MCPClient" where
  "connectToServer w this serverConfig =
     (let transport = \<lparr>sp_command = command serverConfig,
                        sp_args = args serverConfig,
                        sp_env = env serverConfig\<rparr>;
          connected = connect w (trace this) transport;
          this1 = emit (Connect transport connected) this
      in case connected of
           Inl rejection \<Rightarrow> (Dies rejection, this1)
         | Inr _ \<Rightarrow>
            (let toolsResult = listTools w (trace this1);
                 this2 = emit (ListTools toolsResult) this1
             in case toolsResult of
                  Inl e \<Rightarrow>
                    (Throws e,
                     emit (ConsoleLog [LStr ''Failed to connect to MCP server: '', LErr e]) this2)
                | Inr listed \<Rightarrow>
                    (let this3 = this2\<lparr>tools := tools this2 @ map toTool listed\<rparr>
                     in (Returns (),
                         emit (ConsoleLog [LStr ''Connected to server with tools:'',
                                           LNames (map (\<lambda>t. name (fn t)) (tools this3))])
                           this3))))"

subsection \<open>\<^verbatim>\<open>processQuery\<close> (lines 104-159)\<close>

definition model_id :: string where
  "model_id = ''qwen2.5-vl-72b-instruct''"

text \<open>The line pushed to \<^verbatim>\<open>finalText\<close> before the second completion (lines 134-138).\<close>

definition calling_line :: "string \<Rightarrow> string \<Rightarrow> string" where
  "calling_line functionName functionArgs =
     ''[Calling tool '' @ functionName @ '' with args '' @ JSON_stringify functionArgs @ '']''"

text \<open>
  The arguments of the two \<^verbatim>\<open>create\<close> calls: the first carries the user message and
  the catalog (lines 112-118), the second the user message followed by the tool message
  pushed at lines 140-144, and no catalog (lines 146-151).
\<close>

definition first_params :: "'v MCPClient \<Rightarrow> string \<Rightarrow> 'v CompletionParams" where
  "first_params this query =
     \<lparr>model = model_id, messages = [UserMessage query], max_tokens = 500, stop = None,
      tools_param = Some (tools this)\<rparr>"

definition second_params :: "string \<Rightarrow> 'v CallToolResult \<Rightarrow> ToolCall \<Rightarrow> 'v CompletionParams" where
  "second_params query result toolCall =
     \<lparr>model = model_id,
      messages = [UserMessage query] @ [ToolMessage (result_content result) (call_id toolCall)],
      max_tokens = 500, stop = None, tools_param = None\<rparr>"

text \<open>
  Reading \<^verbatim>\<open>choices[0].message\<close> of a completion without choices, and destructuring
  \<^verbatim>\<open>toolCall.function\<close> of the absent first element of an empty \<^verbatim>\<open>tool_calls\<close>,
  throw a \<^verbatim>\<open>TypeError\<close>. An array, also an empty one, is truthy in the test of line
  125; an absent \<^verbatim>\<open>tool_calls\<close> is not. The arguments of \<^verbatim>\<open>callTool\<close> are evaluated
  before the call, so \<^verbatim>\<open>JSON.parse\<close> throws before any call is made.
\<close>

definition processQuery ::
  "'v world \<Rightarrow> 'v MCPClient \<Rightarrow> string \<Rightarrow> (error + string) \<times> 'v MCPClient" where
  "processQuery w this query =
     (let params = first_params this query;
          response = create w (trace this) params;
          this1 = emit (Create params response) this
      in case response of
           Inl e \<Rightarrow> (Inl e, this1)
         | Inr response \<Rightarrow>
            (case choices response of
               [] \<Rightarrow> (Inl TypeError, this1)
             | choice # _ \<Rightarrow>
                (case tool_calls (message choice) of
                   None \<Rightarrow> (Inr (join [CHR 0x0A] [or_empty (content (message choice))]), this1)
                 | Some [] \<Rightarrow> (Inl TypeError, this1)
                 | Some (toolCall # _) \<Rightarrow>
                    (let functionName = call_name (call_function toolCall);
                         functionArgs = arguments (call_function toolCall)
                     in case JSON_parse w functionArgs of
                          None \<Rightarrow> (Inl SyntaxError, this1)
                        | Some parsed \<Rightarrow>
                           (let result = callTool w (trace this1) functionName parsed;
                                this2 = emit (CallTool functionName parsed result) this1
                            in case result of
                                 Inl e \<Rightarrow> (Inl e, this2)
                               | Inr result \<Rightarrow>
                                  (let params2 = second_params query result toolCall;
                                       secondResponse = create w (trace this2) params2;
                                       this3 = emit (Create params2 secondResponse) this2
                                   in case secondResponse of
                                        Inl e \<Rightarrow> (Inl e, this3)
                                      | Inr secondResponse \<Rightarrow>
                                         (case choices secondResponse of
                                            [] \<Rightarrow> (Inl TypeError, this3)
                                          | choice2 # _ \<Rightarrow>
                                             (Inr (join [CHR 0x0A]
                                                     [calling_line functionName functionArgs,
                                                      or_empty (content (message choice2))]),
                                              this3))))))))"

subsection \<open>\<^verbatim>\<open>chatLoop\<close> (lines 161-185)\<close>

text \<open>
  The lines the terminal delivers are a list, and after the last of them the input
  ends; then \<^verbatim>\<open>rl.question\<close> never resolves and the loop is never left. How the
  \<^verbatim>\<open>while (true)\<close> goes on:
\<close>

datatype loop_exit = Break | Throw error | Await

definition query_prompt :: string where
  "query_prompt = CHR 0x0A # ''Query: ''"

fun chatLoop_while ::
  "'v world \<Rightarrow> 'v MCPClient \<Rightarrow> string list \<Rightarrow> loop_exit \<times> 'v MCPClient" where
  "chatLoop_while w this [] = (Await, emit (Question query_prompt None) this)"
| "chatLoop_while w this (msg # rest) =
     (let this1 = emit (Question query_prompt (Some msg)) this;
          this2 = emit (ConsoleLog [LStr ''Processing query...'', LStr msg]) this1
      in if toLowerCase msg = ''quit'' then (Break, this2)
         else case processQuery w this2 msg of
                (Inl e, this3) \<Rightarrow> (Throw e, this3)
              | (Inr response, this3) \<Rightarrow>
                  chatLoop_while w (emit (ConsoleLog [LStr (CHR 0x0A # response)]) this3) rest)"

text \<open>
  The \<^verbatim>\<open>catch\<close> logs the error and swallows it, the \<^verbatim>\<open>finally\<close> closes the interface:
  \<open>chatLoop\<close> returns normally (\<open>True\<close>) or never returns, its last question left without
  an answer (\<open>False\<close>).
\<close>

definition chatLoop :: "'v world \<Rightarrow> 'v MCPClient \<Rightarrow> string list \<Rightarrow> bool \<times> 'v MCPClient" where
  "chatLoop w this lines =
     (let this1 = emit (ConsoleLog [LStr (CHR 0x0A # ''MCP Client Started!'')]) this;
          this2 = emit (ConsoleLog [LStr ''Type your queries or 'quit' to exit.'']) this1
      in case chatLoop_while w this2 lines of
           (Await, this3) \<Rightarrow> (False, this3)
         | (Break, this3) \<Rightarrow> (True, emit RlClose this3)
         | (Throw err, this3) \<Rightarrow>
             (True, emit RlClose (emit (ConsoleLog [LStr ''Error in chat loop: '', LErr err]) this3)))"

subsection \<open>\<^verbatim>\<open>cleanup\<close> and \<^verbatim>\<open>main\<close> (lines 187-210)\<close>

definition cleanup :: "'v world \<Rightarrow> 'v MCPClient \<Rightarrow> (error + unit) \<times> 'v MCPClient" where
  "cleanup w this = (let r = close w (trace this) in (r, emit (Close r) this))"

text \<open>
  The \<^verbatim>\<open>for\<close> loop over \<^verbatim>\<open>Object.entries(mcpServers.mcpServers)\<close>, in its order. The
  configuration file is read and parsed when the module is loaded (lines 25-27), before
  \<open>main\<close> runs: \<open>main\<close> takes the entries of the loaded configuration.
\<close>

fun connect_all ::
  "'v world \<Rightarrow> 'v MCPClient \<Rightarrow> (string \<times> 'v McpServer) list \<Rightarrow> unit ending \<times> 'v MCPClient" where
  "connect_all w this [] = (Returns (), this)"
| "connect_all w this ((serverName, serverConfig) # rest) =
     (let this1 = emit (ConsoleLog [LStr ''Server name: '', LStr serverName]) this;
          this2 = emit (ConsoleLog [LStr ''Server config: '', LServer serverConfig]) this1
      in case connectToServer w this2 serverConfig of
           (Dies rejection, this3) \<Rightarrow> (Dies rejection, this3)
         | (Throws e, this3) \<Rightarrow> (Throws e, this3)
         | (Returns _, this3) \<Rightarrow> connect_all w this3 rest)"

text \<open>
  How a run of \<^verbatim>\<open>main\<close> ends.
  \<^item> \<open>Exited n\<close>: the process ended with status \<open>n\<close>, by the \<^verbatim>\<open>process.exit(0)\<close> of line 206
    (the event \<open>Exit 0\<close>), or with nothing left to run: at the end of the input
    \<^verbatim>\<open>rl.question\<close> never resolves, so \<^verbatim>\<open>chatLoop\<close> never returns, the \<^verbatim>\<open>finally\<close> block is
    never entered and, unless something keeps it alive, node ends with status 0.
  \<^item> \<open>Unhandled e\<close>: a promise that nothing awaits was rejected with \<open>e\<close> and node ended
    the process with status 1: the connection of line 76, or \<^verbatim>\<open>main\<close> itself when
    \<^verbatim>\<open>cleanup\<close> throws inside the \<^verbatim>\<open>finally\<close> (which replaces any error on its way out).
  \<^item> \<open>Waiting\<close>: the input has ended and something keeps the process alive.
\<close>

datatype outcome = Exited int | Unhandled error | Waiting

fun status :: "outcome \<Rightarrow> int option" where
  "status (Exited n) = Some n"
| "status (Unhandled e) = Some 1"
| "status Waiting = None"

text \<open>The \<^verbatim>\<open>finally\<close> block of \<^verbatim>\<open>main\<close>.\<close>

definition main_finally :: "'v world \<Rightarrow> 'v MCPClient \<Rightarrow> outcome \<times> 'v MCPClient" where
  "main_finally w this =
     (case cleanup w this of
        (Inl e, this1) \<Rightarrow> (Unhandled e, this1)
      | (Inr _, this1) \<Rightarrow> (Exited 0, emit (Exit 0) this1))"

definition new_MCPClient :: "'v MCPClient" where
  "new_MCPClient = \<lparr>tools = [], trace = []\<rparr>"

definition main ::
  "'v world \<Rightarrow> (string \<times> 'v McpServer) list \<Rightarrow> string list \<Rightarrow> outcome \<times> 'v MCPClient" where
  "main w mcpServers lines =
     (case connect_all w new_MCPClient mcpServers of
        (Dies rejection, this1) \<Rightarrow> (Unhandled rejection, this1)
      | (Throws e, this1) \<Rightarrow> main_finally w this1
      | (Returns _, this1) \<Rightarrow>
          (case chatLoop w this1 lines of
             (False, this2) \<Rightarrow>
               (if keeps_alive w (trace this2) then Waiting else Exited 0, this2)
           | (True, this2) \<Rightarrow> main_finally w this2))"

section \<open>Observing a run\<close>

text \<open>
  The events a call added to the history, and the parts of a history the claims count:
  the tool invocations, the completion calls, the connections, the tool lists reported,
  and the shutdown events.
\<close>

definition events_since :: "'v MCPClient \<Rightarrow> 'v MCPClient \<Rightarrow> 'v event list" where
  "events_since before after = drop (length (trace before)) (trace after)"

fun tool_invocations :: "'v event list \<Rightarrow> (string \<times> 'v) list" where
  "tool_invocations [] = []"
| "tool_invocations (CallTool n a r # es) = (n, a) # tool_invocations es"
| "tool_invocations (e # es) = tool_invocations es"

fun completion_calls :: "'v event list \<Rightarrow> 'v CompletionParams list" where
  "completion_calls [] = []"
| "completion_calls (Create p r # es) = p # completion_calls es"
| "completion_calls (e # es) = completion_calls es"

fun completion_results :: "'v event list \<Rightarrow> (error + ChatCompletion) list" where
  "completion_results [] = []"
| "completion_results (Create p r # es) = r # completion_results es"
| "completion_results (e # es) = completion_results es"

fun connects :: "'v event list \<Rightarrow> 'v StdioServerParameters list" where
  "connects [] = []"
| "connects (Connect p r # es) = p # connects es"
| "connects (e # es) = connects es"

fun reported_tools :: "'v event list \<Rightarrow> 'v McpTool list list" where
  "reported_tools [] = []"
| "reported_tools (ListTools (Inr listed) # es) = listed # reported_tools es"
| "reported_tools (e # es) = reported_tools es"

fun shutdown_events :: "'v event list \<Rightarrow> 'v event list" where
  "shutdown_events [] = []"
| "shutdown_events (Close r # es) = Close r # shutdown_events es"
| "shutdown_events (Exit n # es) = Exit n # shutdown_events es"
| "shutdown_events (e # es) = shutdown_events es"

fun cleanups :: "'v event list \<Rightarrow> nat" where
  "cleanups [] = 0"
| "cleanups (Close r # es) = Suc (cleanups es)"
| "cleanups (e # es) = cleanups es"

text \<open>
  Events that are no part of startup or shutdown: a history is \<open>quiet\<close> when it holds no
  connection, no tool listing, no cleanup and no exit.
\<close>

definition quiet :: "'v event list \<Rightarrow> bool" where
  "quiet evs =
     (connects evs = [] \<and> reported_tools evs = [] \<and> shutdown_events evs = [] \<and> cleanups evs = 0)"

text \<open>The client at the first turn of the loop, the two lines of lines 168-169 logged.\<close>

definition loop_start :: "'v MCPClient \<Rightarrow> 'v MCPClient" where
  "loop_start this =
     emit (ConsoleLog [LStr ''Type your queries or 'quit' to exit.''])
       (emit (ConsoleLog [LStr (CHR 0x0A # ''MCP Client Started!'')]) this)"

text \<open>The client once a line has been read and logged (lines 172-173).\<close>

definition after_line :: "'v MCPClient \<Rightarrow> string \<Rightarrow> 'v MCPClient" where
  "after_line this msg =
     emit (ConsoleLog [LStr ''Processing query...'', LStr msg])
       (emit (Question query_prompt (Some msg)) this)"

text \<open>
  \<^verbatim>\<open>response.choices[0].message\<close> of the first completion call of \<open>processQuery\<close>, when
  that call returns a completion with a choice.
\<close>

definition first_message :: "'v world \<Rightarrow> 'v MCPClient \<Rightarrow> string \<Rightarrow> ResponseMessage option" where
  "first_message w this query =
     (case create w (trace this) (first_params this query) of
        Inl e \<Rightarrow> None
      | Inr response \<Rightarrow> (case choices response of [] \<Rightarrow> None | choice # _ \<Rightarrow> Some (message choice)))"

text \<open>The client once the first completion call of \<open>processQuery\<close> has been made.\<close>

definition after_first_call :: "'v world \<Rightarrow> 'v MCPClient \<Rightarrow> string \<Rightarrow> 'v MCPClient" where
  "after_first_call w this query =
     emit (Create (first_params this query) (create w (trace this) (first_params this query))) this"

text \<open>The parameters of the transport that \<open>connectToServer\<close> builds for an entry.\<close>

definition transport_of :: "'v McpServer \<Rightarrow> 'v StdioServerParameters" where
  "transport_of serverConfig =
     \<lparr>sp_command = command serverConfig, sp_args = args serverConfig, sp_env = env serverConfig\<rparr>"

text \<open>
  The invariant of the specification's data model, in its words: a conversation holds a
  tool message whose \<^verbatim>\<open>tool_call_id\<close> is the id of a tool call of an assistant message
  that precedes it. \<open>seen\<close> collects the ids of the assistant messages passed so far.
\<close>

fun tool_message_answers :: "string list \<Rightarrow> 'v ChatMessage list \<Rightarrow> bool" where
  "tool_message_answers seen [] = False"
| "tool_message_answers seen (UserMessage text # ms) = tool_message_answers seen ms"
| "tool_message_answers seen (AssistantMessage text calls # ms) =
     tool_message_answers (seen @ map call_id (case calls of None \<Rightarrow> [] | Some cs \<Rightarrow> cs)) ms"
| "tool_message_answers seen (ToolMessage c i # ms) =
     (i \<in> set seen \<or> tool_message_answers seen ms)"

fun is_assistant :: "'v ChatMessage \<Rightarrow> bool" where
  "is_assistant (AssistantMessage text calls) = True"
| "is_assistant m = False"

text \<open>
  The specification's sentinel, in its words: a line that equals \<^verbatim>\<open>quit\<close> up to the case
  of its four letters.
\<close>

definition is_quit :: "string \<Rightarrow> bool" where
  "is_quit line =
     (case line of
        [a, b, c, d] \<Rightarrow>
          (a = CHR ''q'' \<or> a = CHR ''Q'') \<and> (b = CHR ''u'' \<or> b = CHR ''U'') \<and>
          (c = CHR ''i'' \<or> c = CHR ''I'') \<and> (d = CHR ''t'' \<or> d = CHR ''T'')
      | _ \<Rightarrow> False)"

section \<open>A scripted world\<close>

text \<open>
  A concrete world, set up as a test of the client would: values are JSON values, the
  server lists an \<^verbatim>\<open>echo\<close> tool whose schema requires \<^verbatim>\<open>a\<close> and \<^verbatim>\<open>b\<close> first and two more
  tools on every later listing, the chat API answers by the text of the query, and
  \<^verbatim>\<open>JSON.parse\<close> is given on the argument strings the script uses.
\<close>

datatype json =
    JNull
  | JBool bool
  | JNumber int
  | JString string
  | JArray "json list"
  | JObject "(string \<times> json) list"

definition echo_args :: string where
  \<open>echo_args = ''{"msg":"hi"}''\<close>

text \<open>\<^verbatim>\<open>JSON.stringify\<close> of that string: every inner quote behind a backslash.\<close>

definition echo_args_quoted :: string where
  \<open>echo_args_quoted =
     ''"{'' @ [CHR 0x5C] @ ''"msg'' @ [CHR 0x5C] @ ''":'' @ [CHR 0x5C] @ ''"hi'' @ [CHR 0x5C] @ ''"}"''\<close>

definition echo_tool :: "json McpTool" where
  "echo_tool =
     \<lparr>mcp_name = ''echo'', mcp_description = Some ''Echo a message'',
      mcp_inputSchema =
        \<lparr>schema_type = ''object'',
         properties = Some [(''a'', JObject [(''type'', JString ''string'')]),
                            (''b'', JObject [(''type'', JString ''string'')])],
         schema_required = Some [''a'', ''b'']\<rparr>\<rparr>"

definition add_tool :: "json McpTool" where
  "add_tool =
     \<lparr>mcp_name = ''add'', mcp_description = None,
      mcp_inputSchema = \<lparr>schema_type = ''object'', properties = None, schema_required = None\<rparr>\<rparr>"

definition time_tool :: "json McpTool" where
  "time_tool =
     \<lparr>mcp_name = ''time'', mcp_description = Some ''The time'',
      mcp_inputSchema =
        \<lparr>schema_type = ''object'', properties = Some [], schema_required = Some []\<rparr>\<rparr>"

definition call_of :: "string \<Rightarrow> string \<Rightarrow> string \<Rightarrow> ToolCall" where
  "call_of i n a = \<lparr>call_id = i, call_function = \<lparr>call_name = n, arguments = a\<rparr>\<rparr>"

definition completion_of :: "string option \<Rightarrow> ToolCall list option \<Rightarrow> ChatCompletion" where
  "completion_of text calls = \<lparr>choices = [\<lparr>message = \<lparr>content = text, tool_calls = calls\<rparr>\<rparr>]\<rparr>"

text \<open>
  The completion call without a catalog (the second of a query) answers \<^verbatim>\<open>done\<close>. With a
  catalog, the query \<^verbatim>\<open>say hi\<close> asks for two tool calls at once, \<^verbatim>\<open>bad args\<close> for a call
  whose arguments are cut short, \<^verbatim>\<open>no calls\<close> comes back with an empty \<^verbatim>\<open>tool_calls\<close>,
  \<^verbatim>\<open>fail\<close> is rejected, and any other query is answered with \<^verbatim>\<open>Hello!\<close>.
\<close>

definition script_create :: "json event list \<Rightarrow> json CompletionParams \<Rightarrow> error + ChatCompletion" where
  "script_create history params =
     (if tools_param params = None then Inr (completion_of (Some ''done'') None)
      else if messages params = [UserMessage ''say hi'']
        then Inr (completion_of None
                    (Some [call_of ''call_1'' ''echo'' echo_args, call_of ''call_2'' ''add'' ''{}'']))
      else if messages params = [UserMessage ''bad args'']
        then Inr (completion_of None (Some [call_of ''call_3'' ''echo'' ''{'']))
      else if messages params = [UserMessage ''no calls'']
        then Inr (completion_of (Some ''nothing to do'') (Some []))
      else if messages params = [UserMessage ''fail'']
        then Inl (Rejected ''429'')
      else Inr (completion_of (Some ''Hello!'') None))"

definition script :: "json world" where
  "script =
     \<lparr>JSON_parse = (\<lambda>text. if text = echo_args then Some (JObject [(''msg'', JString ''hi'')])
                             else if text = ''{}'' then Some (JObject [])
                             else None),
      connect = (\<lambda>history transport. Inr ()),
      listTools = (\<lambda>history. if reported_tools history = [] then Inr [echo_tool]
                              else Inr [add_tool, time_tool]),
      create = script_create,
      callTool = (\<lambda>history n a. Inr \<lparr>result_content = JArray [a], isError = Some False\<rparr>),
      close = (\<lambda>history. Inr ()),
      keeps_alive = (\<lambda>history. False)\<rparr>"

definition echo_server :: "json McpServer" where
  "echo_server = \<lparr>server_type = None, command = ''node'', args = [''echo.js''], env = None\<rparr>"

definition math_server :: "json McpServer" where
  "math_server =
     \<lparr>server_type = Some stdio, command = ''python'', args = [''-m'', ''math_server''],
      env = Some [(''TZ'', JString ''UTC'')]\<rparr>"

definition files_server :: "json McpServer" where
  "files_server =
     \<lparr>server_type = Some stdio, command = ''npx'', args = [''files-server'', ''/tmp''],
      env = None\<rparr>"

text \<open>The configuration of the runs: three servers under three names, in the order of
  their entries.\<close>

definition three_servers :: "(string \<times> json McpServer) list" where
  "three_servers = [(''echo'', echo_server), (''math'', math_server), (''files'', files_server)]"

text \<open>
  The same world with a second server that answers the listing with an error; with a
  second server whose process cannot be spawned, so that the promise of its connection
  is rejected; and with a \<^verbatim>\<open>close\<close> that is rejected.
\<close>

definition second_listing_fails :: "json world" where
  "second_listing_fails =
     script\<lparr>listTools := (\<lambda>history. if reported_tools history = [] then Inr [echo_tool]
                                       else Inl (Rejected ''Method not found''))\<rparr>"

definition second_connect_rejected :: "json world" where
  "second_connect_rejected =
     script\<lparr>connect := (\<lambda>history transport. if connects history = [] then Inr ()
                                               else Inl (Rejected ''spawn python ENOENT''))\<rparr>"

definition close_rejected :: "json world" where
  "close_rejected = script\<lparr>close := (\<lambda>history. Inl (Rejected ''Not connected''))\<rparr>"

text \<open>The same world with a chat API that rejects every call.\<close>

definition api_down :: "json world" where
  "api_down = script\<lparr>create := (\<lambda>history params. Inl (Rejected ''401''))\<rparr>"

section \<open>Facts about \<open>processQuery\<close>\<close>

lemma trace_emit [simp]: "trace (emit e this) = trace this @ [e]"
  by (simp add: emit_def)

lemma tools_emit [simp]: "tools (emit e this) = tools this"
  by (simp add: emit_def)

lemma events_since_self [simp]: "events_since this this = []"
  by (simp add: events_since_def)

lemma events_since_emit [simp]:
  "events_since this (emit e that) = events_since this that @ drop (length (trace this) - length (trace that)) [e]"
  by (simp add: events_since_def)

lemma events_since_after_first_call [simp]:
  "events_since this (after_first_call w this query) =
     [Create (first_params this query) (create w (trace this) (first_params this query))]"
  by (simp add: after_first_call_def)

lemma tools_after_first_call [simp]: "tools (after_first_call w this query) = tools this"
  by (simp add: after_first_call_def)

lemmas script_defs =
  processQuery_def first_message_def after_first_call_def script_def script_create_def
  first_params_def second_params_def new_MCPClient_def emit_def events_since_def
  completion_of_def call_of_def echo_args_def calling_line_def
  JSON_stringify_def quote_char_def Let_def or_empty_def

text \<open>What a first message that exists says about the first completion call.\<close>

lemma first_message_SomeD:
  assumes "first_message w this query = Some m"
  obtains response choice rest where
    "create w (trace this) (first_params this query) = Inr response"
    "choices response = choice # rest" "message choice = m"
  using assms by (auto simp: first_message_def split: sum.splits list.splits)

lemma processQuery_no_tool_calls:
  assumes "first_message w this query = Some m" and "tool_calls m = None"
  shows "processQuery w this query = (Inr (or_empty (content m)), after_first_call w this query)"
proof -
  from assms(1) obtain response choice rest where
    "create w (trace this) (first_params this query) = Inr response"
    "choices response = choice # rest" "message choice = m"
    by (rule first_message_SomeD)
  with assms(2) show ?thesis
    by (simp add: processQuery_def after_first_call_def Let_def)
qed

lemma processQuery_empty_tool_calls:
  assumes "first_message w this query = Some m" and "tool_calls m = Some []"
  shows "processQuery w this query = (Inl TypeError, after_first_call w this query)"
proof -
  from assms(1) obtain response choice rest where
    "create w (trace this) (first_params this query) = Inr response"
    "choices response = choice # rest" "message choice = m"
    by (rule first_message_SomeD)
  with assms(2) show ?thesis
    by (simp add: processQuery_def after_first_call_def Let_def)
qed

lemma processQuery_malformed:
  assumes "first_message w this query = Some m" and "tool_calls m = Some (toolCall # others)"
      and "JSON_parse w (arguments (call_function toolCall)) = None"
  shows "processQuery w this query = (Inl SyntaxError, after_first_call w this query)"
proof -
  from assms(1) obtain response choice rest where
    "create w (trace this) (first_params this query) = Inr response"
    "choices response = choice # rest" "message choice = m"
    by (rule first_message_SomeD)
  with assms(2,3) show ?thesis
    by (simp add: processQuery_def after_first_call_def Let_def)
qed

lemma processQuery_invocations:
  assumes "first_message w this query = Some m" and "tool_calls m = Some (toolCall # others)"
      and "JSON_parse w (arguments (call_function toolCall)) = Some parsed"
  shows "tool_invocations (events_since this (snd (processQuery w this query))) =
           [(call_name (call_function toolCall), parsed)]"
proof -
  from assms(1) obtain response choice rest where
    "create w (trace this) (first_params this query) = Inr response"
    "choices response = choice # rest" "message choice = m"
    by (rule first_message_SomeD)
  with assms(2,3) show ?thesis
    by (simp add: processQuery_def Let_def split: sum.splits list.splits)
qed

lemma processQuery_answer:
  assumes "first_message w this query = Some m" and "tool_calls m = Some (toolCall # others)"
      and "processQuery w this query = (Inr answer, this')"
  shows "\<exists>r1 parsed result r2 choice2 rest2.
           events_since this this' =
             [Create (first_params this query) (Inr r1),
              CallTool (call_name (call_function toolCall)) parsed (Inr result),
              Create (second_params query result toolCall) (Inr r2)] \<and>
           choices r2 = choice2 # rest2 \<and>
           answer = calling_line (call_name (call_function toolCall))
                      (arguments (call_function toolCall)) @ [CHR 0x0A] @
                    or_empty (content (message choice2))"
proof -
  from assms(1) obtain response choice rest where
    "create w (trace this) (first_params this query) = Inr response"
    "choices response = choice # rest" "message choice = m"
    by (rule first_message_SomeD)
  with assms(2,3) show ?thesis
    by (auto simp add: processQuery_def Let_def split: sum.splits list.splits option.splits)
qed

text \<open>
  The tool branch does return: when the arguments parse and the tool call and the second
  completion call succeed, the answer is the calling line, a newline and the second text.
\<close>

lemma processQuery_returns:
  assumes "first_message w this query = Some m" and "tool_calls m = Some (toolCall # others)"
      and "JSON_parse w (arguments (call_function toolCall)) = Some parsed"
      and "callTool w (trace (after_first_call w this query))
             (call_name (call_function toolCall)) parsed = Inr result"
      and "create w (trace (after_first_call w this query) @
                      [CallTool (call_name (call_function toolCall)) parsed (Inr result)])
             (second_params query result toolCall) = Inr r2"
      and "choices r2 = choice2 # rest2"
  shows "fst (processQuery w this query) =
           Inr (calling_line (call_name (call_function toolCall))
                  (arguments (call_function toolCall)) @ [CHR 0x0A] @
                or_empty (content (message choice2)))"
proof -
  from assms(1) obtain response choice rest where
    "create w (trace this) (first_params this query) = Inr response"
    "choices response = choice # rest" "message choice = m"
    by (rule first_message_SomeD)
  with assms(2-) show ?thesis
    by (simp add: processQuery_def after_first_call_def Let_def)
qed

lemma processQuery_second_call:
  assumes "first_message w this query = Some m" and "tool_calls m = Some (toolCall # others)"
      and "CallTool n a (Inr result) \<in> set (events_since this (snd (processQuery w this query)))"
  shows "completion_calls (events_since this (snd (processQuery w this query))) =
           [first_params this query, second_params query result toolCall]"
proof -
  from assms(1) obtain response choice rest where
    "create w (trace this) (first_params this query) = Inr response"
    "choices response = choice # rest" "message choice = m"
    by (rule first_message_SomeD)
  with assms(2,3) show ?thesis
    by (auto simp add: processQuery_def Let_def split: sum.splits list.splits option.splits)
qed

lemma second_params_messages:
  "messages (second_params query result toolCall) =
     [UserMessage query, ToolMessage (result_content result) (call_id toolCall)]"
  by (simp add: second_params_def)

section \<open>The claims about \<open>processQuery\<close>\<close>

text \<open>
  Claim C1, as the code has it. When the first completion response asks for at least
  one tool call and \<open>processQuery\<close> returns an answer, the run made the first completion
  call, one tool call and the second completion call, all successful, and the answer is
  the line \<^verbatim>\<open>[Calling tool NAME with args ARGS]\<close> (\<^verbatim>\<open>ARGS\<close> being \<^verbatim>\<open>JSON.stringify\<close> of the
  argument string), a newline, and the text content of the second response (the empty
  string when that content is \<^verbatim>\<open>null\<close>): the second response's text is the end of the
  answer, not the whole of it.
\<close>

theorem processQuery_tool_call_answer:
  assumes "first_message w this query = Some m"
      and "tool_calls m = Some (toolCall # others)"
      and "processQuery w this query = (Inr answer, this')"
  shows "\<exists>r1 parsed result r2 choice2 rest2.
           events_since this this' =
             [Create (first_params this query) (Inr r1),
              CallTool (call_name (call_function toolCall)) parsed (Inr result),
              Create (second_params query result toolCall) (Inr r2)] \<and>
           choices r2 = choice2 # rest2 \<and>
           answer = calling_line (call_name (call_function toolCall))
                      (arguments (call_function toolCall)) @ [CHR 0x0A] @
                    or_empty (content (message choice2))"
  using assms by (rule processQuery_answer)

text \<open>
  The theorem in the scripted world, on the query \<^verbatim>\<open>say hi\<close>: the answer is returned,
  after the three calls.
\<close>

theorem processQuery_tool_call_answer_witness:
  "first_message script new_MCPClient ''say hi'' =
     Some \<lparr>content = None,
           tool_calls = Some [call_of ''call_1'' ''echo'' echo_args, call_of ''call_2'' ''add'' ''{}'']\<rparr> \<and>
   fst (processQuery script new_MCPClient ''say hi'') =
     Inr (calling_line ''echo'' echo_args @ [CHR 0x0A] @ ''done'') \<and>
   length (events_since new_MCPClient (snd (processQuery script new_MCPClient ''say hi''))) = 3"
proof -
  have h1: "first_message script new_MCPClient ''say hi'' =
              Some \<lparr>content = None,
                    tool_calls = Some [call_of ''call_1'' ''echo'' echo_args,
                                       call_of ''call_2'' ''add'' ''{}'']\<rparr>"
    by (simp add: script_defs)
  have h2: "fst (processQuery script new_MCPClient ''say hi'') =
              Inr (calling_line ''echo'' echo_args @ [CHR 0x0A] @ ''done'')"
    by (simp add: script_defs)
  then have h3: "processQuery script new_MCPClient ''say hi'' =
              (Inr (calling_line ''echo'' echo_args @ [CHR 0x0A] @ ''done''),
               snd (processQuery script new_MCPClient ''say hi''))"
    by (metis prod.collapse)
  from processQuery_tool_call_answer [OF h1 _ h3]
  have "length (events_since new_MCPClient (snd (processQuery script new_MCPClient ''say hi''))) = 3"
    by auto
  with h1 h2 show ?thesis
    by simp
qed

text \<open>
  Claim C1 as it is written fails in the scripted world: the first response holds two
  tool calls, the second response's text is \<^verbatim>\<open>done\<close>, and the answer returned is not
  \<^verbatim>\<open>done\<close> but the calling line, a newline and \<^verbatim>\<open>done\<close>.
\<close>

theorem processQuery_second_text_counterexample:
  "first_message script new_MCPClient ''say hi'' =
     Some \<lparr>content = None,
           tool_calls = Some [call_of ''call_1'' ''echo'' echo_args, call_of ''call_2'' ''add'' ''{}'']\<rparr> \<and>
   completion_results (trace (snd (processQuery script new_MCPClient ''say hi''))) =
     [Inr (completion_of None
             (Some [call_of ''call_1'' ''echo'' echo_args, call_of ''call_2'' ''add'' ''{}''])),
      Inr (completion_of (Some ''done'') None)] \<and>
   fst (processQuery script new_MCPClient ''say hi'') =
     Inr (''[Calling tool echo with args '' @ echo_args_quoted @ '']'' @ [CHR 0x0A] @ ''done'') \<and>
   fst (processQuery script new_MCPClient ''say hi'') \<noteq> Inr ''done''"
  by (simp add: script_defs echo_args_quoted_def)

text \<open>
  Claim C2, as the code has it. When a tool call of a query has returned its result,
  the query makes two completion calls, and the conversation of the second is the user
  message followed by one tool message that carries the content of the tool result and
  the id of the first tool call of the first response. The assistant message that
  held that tool call is never appended: the conversation holds no assistant message,
  so the tool message answers no assistant message that precedes it there; it would
  answer the message of the first response, had that been appended before it.
\<close>

theorem processQuery_second_conversation:
  assumes "first_message w this query = Some m"
      and "tool_calls m = Some (toolCall # others)"
      and "CallTool n a (Inr result) \<in> set (events_since this (snd (processQuery w this query)))"
  shows "completion_calls (events_since this (snd (processQuery w this query))) =
           [first_params this query, second_params query result toolCall] \<and>
         messages (second_params query result toolCall) =
           [UserMessage query, ToolMessage (result_content result) (call_id toolCall)] \<and>
         filter is_assistant (messages (second_params query result toolCall)) = [] \<and>
         \<not> tool_message_answers [] (messages (second_params query result toolCall)) \<and>
         tool_message_answers []
           [UserMessage query, AssistantMessage (content m) (tool_calls m),
            ToolMessage (result_content result) (call_id toolCall)]"
  using processQuery_second_call [OF assms] assms(2) by (simp add: second_params_messages)

text \<open>The theorem in the scripted world, on the query \<^verbatim>\<open>say hi\<close>.\<close>

theorem processQuery_second_conversation_witness:
  "first_message script new_MCPClient ''say hi'' =
     Some \<lparr>content = None,
           tool_calls = Some [call_of ''call_1'' ''echo'' echo_args, call_of ''call_2'' ''add'' ''{}'']\<rparr> \<and>
   CallTool ''echo'' (JObject [(''msg'', JString ''hi'')])
      (Inr \<lparr>result_content = JArray [JObject [(''msg'', JString ''hi'')]], isError = Some False\<rparr>)
     \<in> set (events_since new_MCPClient (snd (processQuery script new_MCPClient ''say hi''))) \<and>
   map messages (completion_calls (events_since new_MCPClient (snd (processQuery script new_MCPClient ''say hi'')))) =
     [[UserMessage ''say hi''],
      [UserMessage ''say hi'',
       ToolMessage (JArray [JObject [(''msg'', JString ''hi'')]]) ''call_1'']]"
proof -
  have h1: "first_message script new_MCPClient ''say hi'' =
              Some \<lparr>content = None,
                    tool_calls = Some [call_of ''call_1'' ''echo'' echo_args,
                                       call_of ''call_2'' ''add'' ''{}'']\<rparr>"
    by (simp add: script_defs)
  have h2: "CallTool ''echo'' (JObject [(''msg'', JString ''hi'')])
      (Inr \<lparr>result_content = JArray [JObject [(''msg'', JString ''hi'')]], isError = Some False\<rparr>)
     \<in> set (events_since new_MCPClient (snd (processQuery script new_MCPClient ''say hi'')))"
    by (simp add: script_defs)
  from processQuery_second_conversation [OF h1 _ h2] h1 h2 show ?thesis
    by (simp add: call_of_def first_params_def second_params_def)
qed

text \<open>
  Claim C2 as it is written fails in the scripted world: the tool \<^verbatim>\<open>echo\<close> is called, the
  second completion call is sent the user message and the tool message with the id
  \<^verbatim>\<open>call_1\<close>, and no assistant message with that tool call precedes it.
\<close>

theorem processQuery_second_conversation_counterexample:
  "tool_invocations (trace (snd (processQuery script new_MCPClient ''say hi''))) =
     [(''echo'', JObject [(''msg'', JString ''hi'')])] \<and>
   map messages (completion_calls (trace (snd (processQuery script new_MCPClient ''say hi'')))) =
     [[UserMessage ''say hi''],
      [UserMessage ''say hi'',
       ToolMessage (JArray [JObject [(''msg'', JString ''hi'')]]) ''call_1'']] \<and>
   \<not> tool_message_answers []
       [UserMessage ''say hi'',
        ToolMessage (JArray [JObject [(''msg'', JString ''hi'')]]) ''call_1'']"
  by (simp add: script_defs)

text \<open>
  Claim C4. When the first completion response asks for one or more tool calls and the
  arguments of the first of them parse, \<open>processQuery\<close> invokes \<^verbatim>\<open>callTool\<close> exactly once,
  with the name and the parsed arguments of that first tool call, whatever the call and
  the second completion then return; the other tool calls of the response are not
  executed.
\<close>

theorem processQuery_first_tool_call_only:
  assumes "first_message w this query = Some m"
      and "tool_calls m = Some (toolCall # others)"
      and "JSON_parse w (arguments (call_function toolCall)) = Some parsed"
  shows "tool_invocations (events_since this (snd (processQuery w this query))) =
           [(call_name (call_function toolCall), parsed)]"
  using assms by (rule processQuery_invocations)

text \<open>
  The theorem in the scripted world: of the two tool calls of the response to
  \<^verbatim>\<open>say hi\<close>, only \<^verbatim>\<open>echo\<close> is invoked.
\<close>

theorem processQuery_first_tool_call_only_witness:
  "first_message script new_MCPClient ''say hi'' =
     Some \<lparr>content = None,
           tool_calls = Some [call_of ''call_1'' ''echo'' echo_args, call_of ''call_2'' ''add'' ''{}'']\<rparr> \<and>
   JSON_parse script echo_args = Some (JObject [(''msg'', JString ''hi'')]) \<and>
   tool_invocations (events_since new_MCPClient (snd (processQuery script new_MCPClient ''say hi''))) =
     [(''echo'', JObject [(''msg'', JString ''hi'')])]"
proof -
  have h1: "first_message script new_MCPClient ''say hi'' =
              Some \<lparr>content = None,
                    tool_calls = Some [call_of ''call_1'' ''echo'' echo_args,
                                       call_of ''call_2'' ''add'' ''{}'']\<rparr>"
    by (simp add: script_defs)
  have h2: "JSON_parse script (arguments (call_function (call_of ''call_1'' ''echo'' echo_args))) =
              Some (JObject [(''msg'', JString ''hi'')])"
    by (simp add: script_defs)
  from processQuery_first_tool_call_only [OF h1 _ h2] h1 h2 show ?thesis
    by (simp add: call_of_def)
qed

text \<open>
  Claim C5. When the argument string of the first tool call of the first completion
  response is not valid JSON (\<^verbatim>\<open>JSON.parse\<close> throws), \<open>processQuery\<close> fails with that
  \<^verbatim>\<open>SyntaxError\<close>, \<^verbatim>\<open>callTool\<close> is not invoked, no second completion call is made and the
  tool catalog is as it was.
\<close>

theorem processQuery_malformed_arguments:
  assumes "first_message w this query = Some m"
      and "tool_calls m = Some (toolCall # others)"
      and "JSON_parse w (arguments (call_function toolCall)) = None"
  shows "fst (processQuery w this query) = Inl SyntaxError \<and>
         tool_invocations (events_since this (snd (processQuery w this query))) = [] \<and>
         completion_calls (events_since this (snd (processQuery w this query))) =
           [first_params this query] \<and>
         tools (snd (processQuery w this query)) = tools this"
  using processQuery_malformed [OF assms] by simp

text \<open>The theorem in the scripted world, on the query \<^verbatim>\<open>bad args\<close>.\<close>

theorem processQuery_malformed_arguments_witness:
  "first_message script new_MCPClient ''bad args'' =
     Some \<lparr>content = None, tool_calls = Some [call_of ''call_3'' ''echo'' ''{'']\<rparr> \<and>
   JSON_parse script ''{'' = None \<and>
   fst (processQuery script new_MCPClient ''bad args'') = Inl SyntaxError \<and>
   tool_invocations (events_since new_MCPClient (snd (processQuery script new_MCPClient ''bad args''))) = [] \<and>
   tools (snd (processQuery script new_MCPClient ''bad args'')) = []"
proof -
  have h1: "first_message script new_MCPClient ''bad args'' =
              Some \<lparr>content = None, tool_calls = Some [call_of ''call_3'' ''echo'' ''{'']\<rparr>"
    by (simp add: script_defs)
  have h2: "JSON_parse script (arguments (call_function (call_of ''call_3'' ''echo'' ''{''))) = None"
    by (simp add: script_defs)
  from processQuery_malformed_arguments [OF h1 _ h2] h1 h2 show ?thesis
    by (simp add: call_of_def new_MCPClient_def)
qed

text \<open>
  Claim C6, as the code has it. When \<^verbatim>\<open>tool_calls\<close> of the first completion response is
  absent, \<open>processQuery\<close> returns the text content of that response (the empty string
  when the content is \<^verbatim>\<open>null\<close>), having made the first completion call and nothing else:
  no second completion call and no tool call.
\<close>

theorem processQuery_without_tool_calls:
  assumes "first_message w this query = Some m" and "tool_calls m = None"
  shows "fst (processQuery w this query) = Inr (or_empty (content m)) \<and>
         completion_calls (events_since this (snd (processQuery w this query))) =
           [first_params this query] \<and>
         tool_invocations (events_since this (snd (processQuery w this query))) = []"
  using processQuery_no_tool_calls [OF assms] by simp

text \<open>The theorem in the scripted world, on the query \<^verbatim>\<open>hello\<close>.\<close>

theorem processQuery_without_tool_calls_witness:
  "first_message script new_MCPClient ''hello'' = Some \<lparr>content = Some ''Hello!'', tool_calls = None\<rparr> \<and>
   fst (processQuery script new_MCPClient ''hello'') = Inr ''Hello!'' \<and>
   completion_calls (events_since new_MCPClient (snd (processQuery script new_MCPClient ''hello''))) =
     [first_params new_MCPClient ''hello''] \<and>
   tool_invocations (events_since new_MCPClient (snd (processQuery script new_MCPClient ''hello''))) = []"
proof -
  have h: "first_message script new_MCPClient ''hello'' =
             Some \<lparr>content = Some ''Hello!'', tool_calls = None\<rparr>"
    by (simp add: script_defs)
  from processQuery_without_tool_calls [OF h] h show ?thesis
    by (simp add: or_empty_def)
qed

text \<open>
  Claim C6 as it is written, for every response without tool-call requests, fails in
  the scripted world on a response whose \<^verbatim>\<open>tool_calls\<close> is present and holds no request:
  no tool is called, and the text of the response is not returned.
\<close>

theorem processQuery_without_tool_calls_counterexample:
  "first_message script new_MCPClient ''no calls'' =
     Some \<lparr>content = Some ''nothing to do'', tool_calls = Some []\<rparr> \<and>
   tool_invocations (trace (snd (processQuery script new_MCPClient ''no calls''))) = [] \<and>
   length (completion_calls (trace (snd (processQuery script new_MCPClient ''no calls'')))) = 1 \<and>
   fst (processQuery script new_MCPClient ''no calls'') \<noteq> Inr ''nothing to do''"
  by (simp add: script_defs)

text \<open>
  Claim C10. When \<^verbatim>\<open>tool_calls\<close> of the first completion response is present and empty,
  \<open>processQuery\<close> enters the tool branch and fails with a \<^verbatim>\<open>TypeError\<close> on the absent
  first element, after the first completion call alone; and \<open>processQuery\<close> returns the
  text content of the first response after that call alone exactly when \<^verbatim>\<open>tool_calls\<close>
  is absent.
\<close>

theorem processQuery_empty_tool_calls_throws:
  assumes "first_message w this query = Some m"
  shows "(tool_calls m = Some [] \<longrightarrow>
            fst (processQuery w this query) = Inl TypeError \<and>
            completion_calls (events_since this (snd (processQuery w this query))) =
              [first_params this query] \<and>
            tool_invocations (events_since this (snd (processQuery w this query))) = []) \<and>
         ((processQuery w this query = (Inr (or_empty (content m)), after_first_call w this query))
            = (tool_calls m = None))"
proof (intro conjI impI)
  assume "tool_calls m = Some []"
  from processQuery_empty_tool_calls [OF assms this]
  show "fst (processQuery w this query) = Inl TypeError"
    and "completion_calls (events_since this (snd (processQuery w this query))) =
              [first_params this query]"
    and "tool_invocations (events_since this (snd (processQuery w this query))) = []"
    by simp_all
next
  from assms obtain response choice rest where
    "create w (trace this) (first_params this query) = Inr response"
    "choices response = choice # rest" "message choice = m"
    by (rule first_message_SomeD)
  then show "(processQuery w this query = (Inr (or_empty (content m)), after_first_call w this query))
            = (tool_calls m = None)"
    by (auto simp add: processQuery_def after_first_call_def Let_def emit_def
             split: sum.splits list.splits option.splits
             dest: arg_cong [where f = trace])
qed

text \<open>
  The theorem in the scripted world, on the query \<^verbatim>\<open>no calls\<close>, whose response has a
  text content and an empty \<^verbatim>\<open>tool_calls\<close>: the text is not returned.
\<close>

theorem processQuery_empty_tool_calls_throws_witness:
  "first_message script new_MCPClient ''no calls'' =
     Some \<lparr>content = Some ''nothing to do'', tool_calls = Some []\<rparr> \<and>
   fst (processQuery script new_MCPClient ''no calls'') = Inl TypeError \<and>
   fst (processQuery script new_MCPClient ''no calls'') \<noteq> Inr ''nothing to do'' \<and>
   tool_invocations (events_since new_MCPClient (snd (processQuery script new_MCPClient ''no calls''))) = []"
proof -
  have h: "first_message script new_MCPClient ''no calls'' =
             Some \<lparr>content = Some ''nothing to do'', tool_calls = Some []\<rparr>"
    by (simp add: script_defs)
  from processQuery_empty_tool_calls_throws [OF h] h show ?thesis
    by simp
qed

section \<open>Facts about the sentinel, the loop and startup\<close>

text \<open>
  \<open>toLowerCase\<close> gives \<^verbatim>\<open>quit\<close> on the sixteen spellings of the sentinel only: of the code
  units below 256, only a letter and its capital are lowered to that letter.
\<close>

lemma of_char_lower_char:
  "(of_char (lower_char c) :: nat) =
     (if (0x41 \<le> (of_char c :: nat) \<and> (of_char c :: nat) \<le> 0x5A) \<or>
         (0xC0 \<le> (of_char c :: nat) \<and> (of_char c :: nat) \<le> 0xDE \<and> (of_char c :: nat) \<noteq> 0xD7)
      then of_char c + 0x20 else of_char c)"
  by (auto simp add: lower_char_def Let_def of_char_of)

lemma lower_char_letter:
  assumes "(of_char l :: nat) = n" and "0x61 \<le> n" and "n \<le> 0x7A"
  shows "lower_char c = l \<longleftrightarrow> (of_char c :: nat) = n \<or> (of_char c :: nat) = n - 0x20"
proof -
  have "lower_char c = l \<longleftrightarrow> (of_char (lower_char c) :: nat) = n"
    using assms(1) by (metis of_char_eq_iff)
  also have "\<dots> \<longleftrightarrow> (of_char c :: nat) = n \<or> (of_char c :: nat) = n - 0x20"
    using assms(2,3) unfolding of_char_lower_char by auto
  finally show ?thesis .
qed

lemma lower_q: "lower_char c = CHR ''q'' \<longleftrightarrow> c = CHR ''q'' \<or> c = CHR ''Q''"
  using lower_char_letter [of "CHR ''q''" 113 c]
        of_char_eq_iff [of c "CHR ''q''", where ?'a = nat] of_char_eq_iff [of c "CHR ''Q''", where ?'a = nat]
  by simp

lemma lower_u: "lower_char c = CHR ''u'' \<longleftrightarrow> c = CHR ''u'' \<or> c = CHR ''U''"
  using lower_char_letter [of "CHR ''u''" 117 c]
        of_char_eq_iff [of c "CHR ''u''", where ?'a = nat] of_char_eq_iff [of c "CHR ''U''", where ?'a = nat]
  by simp

lemma lower_i: "lower_char c = CHR ''i'' \<longleftrightarrow> c = CHR ''i'' \<or> c = CHR ''I''"
  using lower_char_letter [of "CHR ''i''" 105 c]
        of_char_eq_iff [of c "CHR ''i''", where ?'a = nat] of_char_eq_iff [of c "CHR ''I''", where ?'a = nat]
  by simp

lemma lower_t: "lower_char c = CHR ''t'' \<longleftrightarrow> c = CHR ''t'' \<or> c = CHR ''T''"
  using lower_char_letter [of "CHR ''t''" 116 c]
        of_char_eq_iff [of c "CHR ''t''", where ?'a = nat] of_char_eq_iff [of c "CHR ''T''", where ?'a = nat]
  by simp

lemma toLowerCase_quit: "toLowerCase line = ''quit'' \<longleftrightarrow> is_quit line"
proof (cases line)
  case Nil
  then show ?thesis by (simp add: toLowerCase_def is_quit_def)
next
  case (Cons a l1)
  then show ?thesis
    by (auto simp add: toLowerCase_def is_quit_def lower_q lower_u lower_i lower_t
        split: list.splits)
qed

lemma chatLoop_while_quit:
  assumes "is_quit msg"
  shows "chatLoop_while w this (msg # rest) = (Break, after_line this msg)"
  using assms by (simp add: toLowerCase_quit after_line_def Let_def)

lemma chatLoop_while_query:
  assumes "\<not> is_quit msg"
  shows "chatLoop_while w this (msg # rest) =
           (case processQuery w (after_line this msg) msg of
              (Inl e, this3) \<Rightarrow> (Throw e, this3)
            | (Inr response, this3) \<Rightarrow>
                chatLoop_while w (emit (ConsoleLog [LStr (CHR 0x0A # response)]) this3) rest)"
  using assms by (simp add: toLowerCase_quit after_line_def Let_def)

lemma completion_calls_after_line:
  "completion_calls (events_since this (after_line this msg)) = []"
  "tool_invocations (events_since this (after_line this msg)) = []"
  by (simp_all add: after_line_def)

text \<open>
  The observations distribute over the concatenation of histories, and the events of a
  query and of the loop are quiet: they are completion calls, tool calls, prompts and
  log lines.
\<close>

lemma connects_append: "connects (xs @ ys) = connects xs @ connects ys"
  by (induction xs rule: connects.induct) simp_all

lemma reported_tools_append: "reported_tools (xs @ ys) = reported_tools xs @ reported_tools ys"
  by (induction xs rule: reported_tools.induct) simp_all

lemma shutdown_events_append: "shutdown_events (xs @ ys) = shutdown_events xs @ shutdown_events ys"
  by (induction xs rule: shutdown_events.induct) simp_all

lemma cleanups_append: "cleanups (xs @ ys) = cleanups xs + cleanups ys"
  by (induction xs rule: cleanups.induct) simp_all

lemma quiet_Nil: "quiet []"
  by (simp add: quiet_def)

lemma quiet_append: "quiet (xs @ ys) \<longleftrightarrow> quiet xs \<and> quiet ys"
  by (auto simp add: quiet_def connects_append reported_tools_append shutdown_events_append
      cleanups_append)

lemma quiet_simps [simp]:
  "quiet (Create p r # es) = quiet es"
  "quiet (CallTool n a res # es) = quiet es"
  "quiet (ConsoleLog xs # es) = quiet es"
  "quiet (Question q l # es) = quiet es"
  "quiet (RlClose # es) = quiet es"
  by (simp_all add: quiet_def)

lemma processQuery_quiet:
  "\<exists>evs. trace (snd (processQuery w this query)) = trace this @ evs \<and> quiet evs"
  by (auto simp add: processQuery_def Let_def quiet_Nil
      split: sum.splits list.splits option.splits)


lemma chatLoop_while_quiet:
  "\<exists>evs. trace (snd (chatLoop_while w this lines)) = trace this @ evs \<and> quiet evs"
proof (induction lines arbitrary: this)
  case Nil
  show ?case by (simp add: quiet_Nil)
next
  case (Cons msg rest)
  let ?this2 = "after_line this msg"
  have t2: "trace ?this2 = trace this @ [Question query_prompt (Some msg),
              ConsoleLog [LStr ''Processing query...'', LStr msg]]"
    by (simp add: after_line_def)
  have q2: "quiet [Question query_prompt (Some msg),
              ConsoleLog [LStr ''Processing query...'', LStr msg]]"
    by (simp add: quiet_Nil)
  show ?case
  proof (cases "toLowerCase msg = ''quit''")
    case True
    then have "chatLoop_while w this (msg # rest) = (Break, ?this2)"
      by (simp add: after_line_def Let_def)
    with t2 q2 show ?thesis by simp
  next
    case False
    obtain r this3 where pq: "processQuery w ?this2 msg = (r, this3)"
      by (cases "processQuery w ?this2 msg")
    from processQuery_quiet [of w ?this2 msg] pq obtain evs where
      e3: "trace this3 = trace ?this2 @ evs" "quiet evs" by auto
    show ?thesis
    proof (cases r)
      case (Inl e)
      with False pq have "chatLoop_while w this (msg # rest) = (Throw e, this3)"
        by (simp add: after_line_def Let_def)
      with t2 q2 e3 show ?thesis by (simp add: quiet_append)
    next
      case (Inr response)
      let ?this4 = "emit (ConsoleLog [LStr (CHR 0x0A # response)]) this3"
      from Inr False pq have eq: "chatLoop_while w this (msg # rest) = chatLoop_while w ?this4 rest"
        by (simp add: after_line_def Let_def)
      from Cons.IH [of ?this4] obtain evs' where
        "trace (snd (chatLoop_while w ?this4 rest)) = trace ?this4 @ evs'" "quiet evs'" by auto
      with eq t2 q2 e3 show ?thesis by (simp add: quiet_append quiet_Nil)
    qed
  qed
qed


lemma chatLoop_quiet:
  "\<exists>evs. trace (snd (chatLoop w this lines)) = trace this @ evs \<and> quiet evs"
proof -
  let ?this2 = "emit (ConsoleLog [LStr ''Type your queries or 'quit' to exit.''])
                  (emit (ConsoleLog [LStr (CHR 0x0A # ''MCP Client Started!'')]) this)"
  obtain x this3 where lp: "chatLoop_while w ?this2 lines = (x, this3)"
    by (cases "chatLoop_while w ?this2 lines")
  from chatLoop_while_quiet [of w ?this2 lines] lp obtain evs where
    "trace this3 = trace ?this2 @ evs" "quiet evs" by auto
  with lp show ?thesis
    by (cases x) (simp_all add: chatLoop_def Let_def quiet_append quiet_Nil)
qed


text \<open>
  One connection adds its events to the history, the connection first; the loop over the
  entries adds them in the order of the entries.
\<close>

lemma connectToServer_trace:
  "trace (snd (connectToServer w this serverConfig)) =
     trace this @ events_since this (snd (connectToServer w this serverConfig))"
  by (simp add: connectToServer_def Let_def events_since_def split: sum.splits)

lemma connectToServer_connects:
  "connects (events_since this (snd (connectToServer w this serverConfig))) =
     [transport_of serverConfig]"
  by (simp add: connectToServer_def transport_of_def Let_def events_since_def split: sum.splits)

lemma connectToServer_no_shutdown:
  "shutdown_events (events_since this (snd (connectToServer w this serverConfig))) = []"
  "cleanups (events_since this (snd (connectToServer w this serverConfig))) = 0"
  by (simp_all add: connectToServer_def Let_def events_since_def split: sum.splits)

lemma connectToServer_tools:
  "tools (snd (connectToServer w this serverConfig)) =
     tools this @ concat (map (map toTool)
       (reported_tools (events_since this (snd (connectToServer w this serverConfig)))))"
  by (simp add: connectToServer_def Let_def events_since_def split: sum.splits)

lemma connectToServer_reports:
  "length (reported_tools (events_since this (snd (connectToServer w this serverConfig)))) =
     (case fst (connectToServer w this serverConfig) of Returns u \<Rightarrow> 1 | Throws e \<Rightarrow> 0 | Dies e \<Rightarrow> 0)"
  by (simp add: connectToServer_def Let_def events_since_def split: sum.splits)

lemma connectToServer_Returns:
  assumes "connectToServer w this serverConfig = (Returns u, this')"
  shows "\<exists>listed. reported_tools (events_since this this') = [listed] \<and>
           tools this' = tools this @ map toTool listed"
  using assms
  by (auto simp add: connectToServer_def Let_def events_since_def split: sum.splits)

text \<open>With the connection made and the tools listed, \<open>connectToServer\<close> returns.\<close>

lemma connectToServer_healthy:
  assumes "\<And>history transport. connect w history transport = Inr ()"
      and "\<And>history. \<exists>listed. listTools w history = Inr listed"
  shows "fst (connectToServer w this serverConfig) = Returns ()"
proof -
  let ?t = "\<lparr>sp_command = command serverConfig, sp_args = args serverConfig,
              sp_env = env serverConfig\<rparr>"
  from assms(2) obtain listed where
    "listTools w (trace this @ [Connect ?t (Inr ())]) = Inr listed" by blast
  with assms(1) show ?thesis
    by (simp add: connectToServer_def Let_def)
qed

lemma connectToServer_not_Dies:
  assumes "\<And>history transport. connect w history transport = Inr ()"
  shows "fst (connectToServer w this serverConfig) \<noteq> Dies e"
  using assms by (simp add: connectToServer_def Let_def split: sum.splits)

lemma connect_all_step:
  "\<exists>logs this3 evs3 f.
     quiet logs \<and>
     trace this3 = trace this @ logs @ evs3 \<and>
     connects evs3 = [transport_of serverConfig] \<and>
     shutdown_events evs3 = [] \<and> cleanups evs3 = 0 \<and>
     tools this3 = tools this @ concat (map (map toTool) (reported_tools evs3)) \<and>
     length (reported_tools evs3) = (case f of Returns u \<Rightarrow> 1 | Throws e \<Rightarrow> 0 | Dies e \<Rightarrow> 0) \<and>
     ((\<forall>history transport. connect w history transport = Inr ()) \<longrightarrow> (\<forall>e. f \<noteq> Dies e)) \<and>
     ((\<forall>history transport. connect w history transport = Inr ()) \<and>
      (\<forall>history. \<exists>listed. listTools w history = Inr listed) \<longrightarrow> f = Returns ()) \<and>
     connect_all w this ((serverName, serverConfig) # rest) =
       (case f of Dies e \<Rightarrow> (Dies e, this3) | Throws e \<Rightarrow> (Throws e, this3)
        | Returns (u::unit) \<Rightarrow> connect_all w this3 rest)"
proof -
  define this2 where "this2 = emit (ConsoleLog [LStr ''Server config: '', LServer serverConfig])
                  (emit (ConsoleLog [LStr ''Server name: '', LStr serverName]) this)"
  define logs :: "'a event list" where "logs = [ConsoleLog [LStr ''Server name: '', LStr serverName],
                ConsoleLog [LStr ''Server config: '', LServer serverConfig]]"
  define this3 where "this3 = snd (connectToServer w this2 serverConfig)"
  define evs3 where "evs3 = events_since this2 this3"
  define f where "f = fst (connectToServer w this2 serverConfig)"
  have q: "quiet logs" by (simp add: logs_def quiet_Nil)
  have t2: "trace this2 = trace this @ logs" "tools this2 = tools this"
    by (simp_all add: this2_def logs_def)
  have t3: "trace this3 = trace this @ logs @ evs3"
    using connectToServer_trace [of w this2 serverConfig] t2 by (simp add: this3_def evs3_def)
  have c3: "connects evs3 = [transport_of serverConfig]"
    unfolding evs3_def this3_def by (rule connectToServer_connects)
  have s3: "shutdown_events evs3 = []" "cleanups evs3 = 0"
    unfolding evs3_def this3_def by (rule connectToServer_no_shutdown)+
  have tl3: "tools this3 = tools this @ concat (map (map toTool) (reported_tools evs3))"
    using connectToServer_tools [of w this2 serverConfig] t2 by (simp add: this3_def evs3_def)
  have n3: "length (reported_tools evs3) =
       (case f of Returns u \<Rightarrow> 1 | Throws e \<Rightarrow> 0 | Dies e \<Rightarrow> 0)"
    unfolding evs3_def this3_def f_def by (rule connectToServer_reports)
  have d3: "(\<forall>history transport. connect w history transport = Inr ()) \<longrightarrow> (\<forall>e. f \<noteq> Dies e)"
    unfolding f_def using connectToServer_not_Dies [of w this2 serverConfig] by blast
  have h3: "(\<forall>history transport. connect w history transport = Inr ()) \<and>
      (\<forall>history. \<exists>listed. listTools w history = Inr listed) \<longrightarrow> f = Returns ()"
    unfolding f_def using connectToServer_healthy [of w this2 serverConfig] by blast
  have eq: "connect_all w this ((serverName, serverConfig) # rest) =
       (case f of Dies e \<Rightarrow> (Dies e, this3) | Throws e \<Rightarrow> (Throws e, this3)
        | Returns u \<Rightarrow> connect_all w this3 rest)"
    by (cases "connectToServer w this2 serverConfig")
       (simp add: this2_def this3_def f_def Let_def split: ending.splits)
  show ?thesis
    by (rule exI [of _ logs], rule exI [of _ this3], rule exI [of _ evs3], rule exI [of _ f])
       (intro conjI q t3 c3 s3 tl3 n3 d3 h3 eq)
qed

lemma connect_all_shape:
  "\<exists>evs. trace (snd (connect_all w this servers)) = trace this @ evs \<and>
         tools (snd (connect_all w this servers)) =
           tools this @ concat (map (map toTool) (reported_tools evs)) \<and>
         connects evs = map (transport_of \<circ> snd) (take (length (connects evs)) servers) \<and>
         ((\<exists>u. fst (connect_all w this servers) = Returns u) \<longrightarrow>
            connects evs = map (transport_of \<circ> snd) servers \<and>
            length (reported_tools evs) = length servers) \<and>
         shutdown_events evs = [] \<and> cleanups evs = 0"
proof (induction servers arbitrary: this)
  case Nil
  show ?case by simp
next
  case (Cons entry rest)
  obtain serverName serverConfig where entry: "entry = (serverName, serverConfig)"
    by (cases entry)
  from connect_all_step [of "this" serverConfig w serverName rest]
  obtain logs this3 evs3 f where
    q: "quiet logs" and
    t3: "trace this3 = trace this @ logs @ evs3" and
    c3: "connects evs3 = [transport_of serverConfig]" and
    s3: "shutdown_events evs3 = []" "cleanups evs3 = 0" and
    tl3: "tools this3 = tools this @ concat (map (map toTool) (reported_tools evs3))" and
    n3: "length (reported_tools evs3) =
           (case f of Returns (u::unit) \<Rightarrow> 1 | Throws e \<Rightarrow> 0 | Dies e \<Rightarrow> 0)" and
    eq: "connect_all w this (entry # rest) =
           (case f of Dies e \<Rightarrow> (Dies e, this3) | Throws e \<Rightarrow> (Throws e, this3)
            | Returns (u::unit) \<Rightarrow> connect_all w this3 rest)"
    unfolding entry by blast
  from q have ql: "connects logs = []" "reported_tools logs = []" "shutdown_events logs = []"
      "cleanups logs = 0"
    by (simp_all add: quiet_def)
  have stopped: ?case if eq': "connect_all w this (entry # rest) = (g, this3)"
      and g: "\<And>u. g \<noteq> Returns u" for g
    unfolding eq' using g
    by (intro exI [of _ "logs @ evs3"])
       (simp add: t3 c3 s3 tl3 ql connects_append reported_tools_append
          shutdown_events_append cleanups_append entry)
  show ?case
  proof (cases f)
    case (Dies e)
    with eq have "connect_all w this (entry # rest) = (Dies e, this3)" by simp
    then show ?thesis by (rule stopped) simp
  next
    case (Throws e)
    with eq have "connect_all w this (entry # rest) = (Throws e, this3)" by simp
    then show ?thesis by (rule stopped) simp
  next
    case (Returns u)
    with eq have eq': "connect_all w this (entry # rest) = connect_all w this3 rest" by simp
    from Cons.IH [of this3] obtain evs where
      ih: "trace (snd (connect_all w this3 rest)) = trace this3 @ evs"
          "tools (snd (connect_all w this3 rest)) =
             tools this3 @ concat (map (map toTool) (reported_tools evs))"
          "connects evs = map (transport_of \<circ> snd) (take (length (connects evs)) rest)"
          "(\<exists>u. fst (connect_all w this3 rest) = Returns u) \<longrightarrow>
             connects evs = map (transport_of \<circ> snd) rest \<and>
             length (reported_tools evs) = length rest"
          "shutdown_events evs = []" "cleanups evs = 0"
      by blast
    have c: "connects (logs @ evs3 @ evs) = transport_of serverConfig # connects evs"
      by (simp add: connects_append c3 ql)
    have g1: "connects (logs @ evs3 @ evs) =
        map (transport_of \<circ> snd) (take (length (connects (logs @ evs3 @ evs))) (entry # rest))"
      unfolding c using ih(3) by (simp add: entry)
    have g2: "(\<exists>u. fst (connect_all w this3 rest) = Returns u) \<longrightarrow>
        connects (logs @ evs3 @ evs) = map (transport_of \<circ> snd) (entry # rest) \<and>
        length (reported_tools (logs @ evs3 @ evs)) = length (entry # rest)"
      unfolding c using ih(4) n3 Returns by (simp add: entry reported_tools_append ql)
    have g3: "trace (snd (connect_all w this3 rest)) = trace this @ logs @ evs3 @ evs"
      by (simp add: ih(1) t3)
    have g4: "tools (snd (connect_all w this3 rest)) =
        tools this @ concat (map (map toTool) (reported_tools (logs @ evs3 @ evs)))"
      by (simp add: ih(2) tl3 reported_tools_append ql)
    have g5: "shutdown_events (logs @ evs3 @ evs) = []" "cleanups (logs @ evs3 @ evs) = 0"
      by (simp_all add: shutdown_events_append cleanups_append ql s3 ih(5,6))
    show ?thesis
      unfolding eq' by (intro exI [of _ "logs @ evs3 @ evs"] conjI g1 g2 g3 g4 g5)
  qed
qed

text \<open>
  Startup in a world where every connection is made does not die, and in a world where
  moreover every listing is answered it returns.
\<close>

lemma connect_all_not_Dies:
  assumes "\<forall>history transport. connect w history transport = Inr ()"
  shows "fst (connect_all w this servers) \<noteq> Dies e"
proof (induction servers arbitrary: this)
  case Nil
  show ?case by simp
next
  case (Cons entry rest)
  obtain serverName serverConfig where entry: "entry = (serverName, serverConfig)"
    by (cases entry)
  from connect_all_step [of "this" serverConfig w serverName rest] assms
  obtain this3 f where
    d: "\<forall>e. f \<noteq> Dies e" and
    eq: "connect_all w this (entry # rest) =
           (case f of Dies e \<Rightarrow> (Dies e, this3) | Throws e \<Rightarrow> (Throws e, this3)
            | Returns (u::unit) \<Rightarrow> connect_all w this3 rest)"
    unfolding entry by blast
  from d Cons.IH [of this3] show ?case
    unfolding eq by (cases f) simp_all
qed



text \<open>A sentinel among the lines ends the loop, by itself or by an error before it.\<close>

lemma chatLoop_while_sentinel:
  assumes "\<exists>line \<in> set lines. is_quit line"
  shows "fst (chatLoop_while w this lines) \<noteq> Await"
  using assms
proof (induction lines arbitrary: this)
  case Nil
  then show ?case by simp
next
  case (Cons msg rest)
  show ?case
  proof (cases "is_quit msg")
    case True
    show ?thesis
      unfolding chatLoop_while_quit [OF True] by simp
  next
    case False
    with Cons.prems have r: "\<exists>line \<in> set rest. is_quit line" by auto
    obtain res this3 where pq: "processQuery w (after_line this msg) msg = (res, this3)"
      by (cases "processQuery w (after_line this msg) msg")
    show ?thesis
    proof (cases res)
      case (Inl e)
      show ?thesis
        unfolding chatLoop_while_query [OF False] pq Inl by simp
    next
      case (Inr response)
      from Cons.IH [OF r] show ?thesis
        unfolding chatLoop_while_query [OF False] pq Inr by simp
    qed
  qed
qed

text \<open>When the chat API rejects every call, the first line ends the loop.\<close>

lemma processQuery_api_down:
  assumes "\<forall>history params. \<exists>e. create w history params = Inl e"
  shows "\<exists>e. fst (processQuery w this query) = Inl e"
proof -
  from assms obtain e where "create w (trace this) (first_params this query) = Inl e"
    by blast
  then show ?thesis
    by (simp add: processQuery_def Let_def)
qed

lemma chatLoop_while_api_down:
  assumes "\<forall>history params. \<exists>e. create w history params = Inl e" and "lines \<noteq> []"
  shows "fst (chatLoop_while w this lines) \<noteq> Await"
proof -
  from assms(2) obtain msg rest where l: "lines = msg # rest"
    by (cases lines) auto
  show ?thesis
  proof (cases "is_quit msg")
    case True
    show ?thesis
      unfolding l chatLoop_while_quit [OF True] by simp
  next
    case False
    obtain res this3 where pq: "processQuery w (after_line this msg) msg = (res, this3)"
      by (cases "processQuery w (after_line this msg) msg")
    with processQuery_api_down [OF assms(1), of "after_line this msg" msg]
    obtain e where res: "res = Inl e" by auto
    show ?thesis
      unfolding l chatLoop_while_query [OF False] pq res by simp
  qed
qed

text \<open>\<open>chatLoop\<close> returns exactly when the loop, started after its two lines, is left.\<close>

lemma chatLoop_eq:
  "chatLoop w this lines =
     (case chatLoop_while w (loop_start this) lines of
        (Await, this3) \<Rightarrow> (False, this3)
      | (Break, this3) \<Rightarrow> (True, emit RlClose this3)
      | (Throw err, this3) \<Rightarrow>
          (True, emit RlClose (emit (ConsoleLog [LStr ''Error in chat loop: '', LErr err]) this3)))"
  by (simp add: chatLoop_def loop_start_def Let_def)

lemma chatLoop_returns:
  "fst (chatLoop w this lines) \<longleftrightarrow> fst (chatLoop_while w (loop_start this) lines) \<noteq> Await"
  by (simp add: chatLoop_eq split: prod.splits loop_exit.splits)

text \<open>
  A run of \<open>main\<close>: the events of startup, then quiet events of the loop, then the events of
  the \<^verbatim>\<open>finally\<close> block when it is reached.
\<close>

lemma main_finally_shape:
  "trace (snd (main_finally w this)) =
     trace this @ Close (close w (trace this)) #
       (case close w (trace this) of Inl e \<Rightarrow> [] | Inr u \<Rightarrow> [Exit 0])"
  "fst (main_finally w this) =
     (case close w (trace this) of Inl e \<Rightarrow> Unhandled e | Inr u \<Rightarrow> Exited 0)"
  "tools (snd (main_finally w this)) = tools this"
  by (simp_all add: main_finally_def cleanup_def Let_def split: sum.splits)

lemma main_Dies:
  assumes "connect_all w new_MCPClient servers = (Dies e, this1)"
  shows "main w servers lines = (Unhandled e, this1)"
  using assms by (simp add: main_def)

lemma main_Throws:
  assumes "connect_all w new_MCPClient servers = (Throws e, this1)"
  shows "main w servers lines = main_finally w this1"
  using assms by (simp add: main_def)

lemma main_Returns:
  assumes "connect_all w new_MCPClient servers = (Returns u, this1)"
  shows "main w servers lines =
           (if fst (chatLoop w this1 lines) then main_finally w (snd (chatLoop w this1 lines))
            else (if keeps_alive w (trace (snd (chatLoop w this1 lines))) then Waiting else Exited 0,
                  snd (chatLoop w this1 lines)))"
  using assms by (simp add: main_def split: prod.splits bool.splits)

lemma quiet_observed:
  assumes "quiet evs"
  shows "connects evs = []" "reported_tools evs = []" "shutdown_events evs = []" "cleanups evs = 0"
  using assms by (simp_all add: quiet_def)

lemma finally_events_observed:
  "connects (case c of Inl e \<Rightarrow> [] | Inr u \<Rightarrow> [Exit 0]) = []"
  "reported_tools (case c of Inl e \<Rightarrow> [] | Inr u \<Rightarrow> [Exit 0]) = []"
  "cleanups (case c of Inl e \<Rightarrow> [] | Inr u \<Rightarrow> [Exit 0]) = 0"
  by (cases c, simp, simp)+


lemma main_cleaned:
  assumes "(\<exists>e this1. connect_all w new_MCPClient servers = (Throws e, this1)) \<or>
           (\<exists>u this1. connect_all w new_MCPClient servers = (Returns u, this1) \<and>
                       fst (chatLoop_while w (loop_start this1) lines) \<noteq> Await)"
  shows "cleanups (trace (snd (main w servers lines))) = 1 \<and>
         (\<exists>before c.
            trace (snd (main w servers lines)) =
              before @ Close c # (case c of Inl e \<Rightarrow> [] | Inr u \<Rightarrow> [Exit 0]) \<and>
            shutdown_events before = [] \<and>
            fst (main w servers lines) = (case c of Inl e \<Rightarrow> Unhandled e | Inr u \<Rightarrow> Exited 0))"
proof -
  have reached: ?thesis
    if m: "main w servers lines = main_finally w that"
      and s: "shutdown_events (trace that) = []" "cleanups (trace that) = 0" for that
  proof -
    let ?c = "close w (trace that)"
    have t: "trace (snd (main w servers lines)) =
               trace that @ Close ?c # (case ?c of Inl e \<Rightarrow> [] | Inr u \<Rightarrow> [Exit 0])"
      unfolding m by (rule main_finally_shape)
    have f: "fst (main w servers lines) = (case ?c of Inl e \<Rightarrow> Unhandled e | Inr u \<Rightarrow> Exited 0)"
      unfolding m by (rule main_finally_shape)
    have n: "cleanups (trace (snd (main w servers lines))) = 1"
      unfolding t by (simp add: cleanups_append s finally_events_observed)
    from t s(1) f have "\<exists>before c.
            trace (snd (main w servers lines)) =
              before @ Close c # (case c of Inl e \<Rightarrow> [] | Inr u \<Rightarrow> [Exit 0]) \<and>
            shutdown_events before = [] \<and>
            fst (main w servers lines) = (case c of Inl e \<Rightarrow> Unhandled e | Inr u \<Rightarrow> Exited 0)"
      by blast
    with n show ?thesis by simp
  qed
  from connect_all_shape [of w new_MCPClient servers] obtain evs0 where
    s0: "trace (snd (connect_all w new_MCPClient servers)) = trace new_MCPClient @ evs0"
        "shutdown_events evs0 = []" "cleanups evs0 = 0"
    by blast
  have n0: "trace (new_MCPClient :: 'a MCPClient) = []" by (simp add: new_MCPClient_def)
  have st: "shutdown_events (trace (snd (connect_all w new_MCPClient servers))) = []"
      "cleanups (trace (snd (connect_all w new_MCPClient servers))) = 0"
    unfolding s0(1) n0 by (simp_all add: s0(2,3))
  from assms show ?thesis
  proof (elim disjE exE conjE)
    fix e this1
    assume c: "connect_all w new_MCPClient servers = (Throws e, this1)"
    then have m: "main w servers lines = main_finally w this1" by (rule main_Throws)
    from st c have "shutdown_events (trace this1) = []" "cleanups (trace this1) = 0"
      by simp_all
    with m show ?thesis by (rule reached)
  next
    fix u this1
    assume c: "connect_all w new_MCPClient servers = (Returns u, this1)"
      and l: "fst (chatLoop_while w (loop_start this1) lines) \<noteq> Await"
    define this2 where "this2 = snd (chatLoop w this1 lines)"
    from l have r: "fst (chatLoop w this1 lines)" by (simp add: chatLoop_returns)
    with c have m: "main w servers lines = main_finally w this2"
      by (simp add: main_Returns this2_def)
    from chatLoop_quiet [of w this1 lines] obtain evs where
      e: "trace this2 = trace this1 @ evs" "quiet evs" unfolding this2_def by auto
    from st c have "shutdown_events (trace this1) = []" "cleanups (trace this1) = 0"
      by simp_all
    with e have "shutdown_events (trace this2) = []" "cleanups (trace this2) = 0"
      by (simp_all add: shutdown_events_append cleanups_append quiet_observed)
    with m show ?thesis by (rule reached)
  qed
qed

text \<open>
  A run whose input ends at the prompt does not reach the \<^verbatim>\<open>finally\<close> block, and a run
  whose connection is rejected does not either.
\<close>

lemma main_input_ends:
  assumes "connect_all w new_MCPClient servers = (Returns u, this1)"
      and "fst (chatLoop_while w (loop_start this1) lines) = Await"
  shows "cleanups (trace (snd (main w servers lines))) = 0 \<and>
         fst (main w servers lines) =
           (if keeps_alive w (trace (snd (main w servers lines))) then Waiting else Exited 0)"
proof -
  from assms(2) have r: "\<not> fst (chatLoop w this1 lines)" by (simp add: chatLoop_returns)
  from chatLoop_quiet [of w this1 lines] obtain evs where
    e: "trace (snd (chatLoop w this1 lines)) = trace this1 @ evs" "quiet evs" by auto
  from connect_all_shape [of w new_MCPClient servers] assms(1) obtain evs0 where
    "trace this1 = trace new_MCPClient @ evs0" "cleanups evs0 = 0" by auto
  then have "cleanups (trace this1) = 0" by (simp add: new_MCPClient_def)
  with e have "cleanups (trace (snd (chatLoop w this1 lines))) = 0"
    by (simp add: cleanups_append quiet_observed)
  with r show ?thesis
    unfolding main_Returns [OF assms(1)] by simp
qed

lemma main_connection_rejected:
  assumes "connect_all w new_MCPClient servers = (Dies e, this1)"
  shows "cleanups (trace (snd (main w servers lines))) = 0 \<and>
         fst (main w servers lines) = Unhandled e"
proof -
  from connect_all_shape [of w new_MCPClient servers] assms obtain evs0 where
    "trace this1 = trace new_MCPClient @ evs0" "cleanups evs0 = 0" by auto
  then have "cleanups (trace this1) = 0" by (simp add: new_MCPClient_def)
  then show ?thesis
    unfolding main_Dies [OF assms] by simp
qed

section \<open>The claims about startup, the loop and shutdown\<close>

text \<open>
  Claim C3. Whenever \<open>connectToServer\<close> returns, the catalog grows by the translation of
  the tools the server listed, and every translated entry has \<^verbatim>\<open>required\<close> equal to the
  empty list and \<^verbatim>\<open>strict\<close> equal to \<^verbatim>\<open>true\<close>, whatever the listed tool's schema requires.
\<close>

theorem connectToServer_required_empty:
  assumes "connectToServer w this serverConfig = (Returns u, this')"
  shows "\<exists>listed. reported_tools (events_since this this') = [listed] \<and>
           tools this' = tools this @ map toTool listed \<and>
           (\<forall>tool \<in> set listed.
              required (fn (toTool tool)) = Some [] \<and> strict (fn (toTool tool)) = Some True \<and>
              name (fn (toTool tool)) = mcp_name tool)"
  using connectToServer_Returns [OF assms] by (auto simp add: toTool_def)

text \<open>
  The theorem in the scripted world: the schema of \<^verbatim>\<open>echo\<close> requires \<^verbatim>\<open>a\<close> and \<^verbatim>\<open>b\<close>, and
  its catalog entry requires nothing.
\<close>

theorem connectToServer_required_empty_witness:
  "fst (connectToServer script new_MCPClient echo_server) = Returns () \<and>
   reported_tools (events_since new_MCPClient (snd (connectToServer script new_MCPClient echo_server))) =
     [[echo_tool]] \<and>
   schema_required (mcp_inputSchema echo_tool) = Some [''a'', ''b''] \<and>
   map (\<lambda>t. required (fn t)) (tools (snd (connectToServer script new_MCPClient echo_server))) = [Some []] \<and>
   map (\<lambda>t. strict (fn t)) (tools (snd (connectToServer script new_MCPClient echo_server))) = [Some True]"
proof -
  have f: "fst (connectToServer script new_MCPClient echo_server) = Returns ()"
    by (simp add: connectToServer_def script_def new_MCPClient_def emit_def Let_def)
  then have h: "connectToServer script new_MCPClient echo_server =
             (Returns (), snd (connectToServer script new_MCPClient echo_server))"
    by (metis prod.collapse)
  have r: "reported_tools (events_since new_MCPClient
             (snd (connectToServer script new_MCPClient echo_server))) = [[echo_tool]]"
    by (simp add: connectToServer_def script_def new_MCPClient_def emit_def Let_def
        events_since_def)
  have s: "schema_required (mcp_inputSchema echo_tool) = Some [''a'', ''b'']"
    by (simp add: echo_tool_def)
  have t: "tools (new_MCPClient :: json MCPClient) = []"
    by (simp add: new_MCPClient_def)
  from connectToServer_required_empty [OF h] r
  have "tools (snd (connectToServer script new_MCPClient echo_server)) =
          tools new_MCPClient @ map toTool [echo_tool] \<and>
        (\<forall>tool \<in> set [echo_tool].
           required (fn (toTool tool)) = Some [] \<and> strict (fn (toTool tool)) = Some True \<and>
           name (fn (toTool tool)) = mcp_name tool)"
    by auto
  with f r s t show ?thesis
    by simp
qed




text \<open>
  Claim C8, as the code has it. When startup throws, or the loop ends by the sentinel
  or by an error, \<^verbatim>\<open>cleanup\<close> is invoked exactly once and is the last thing the run does
  before it exits: the history ends with the close and, when the close succeeds, the
  \<^verbatim>\<open>process.exit(0)\<close>. With every connection made, the loop does end so whenever a line
  of the input is the sentinel, and whenever the chat API rejects every call and the
  input has a line. A run whose input ends at the prompt never reaches the \<^verbatim>\<open>finally\<close>
  block; what a rejected connection does to the run is not part of this statement.
\<close>

theorem main_cleanup_once:
  assumes run: "main w mcpServers lines = (out, this)"
      and ended:
        "((\<forall>history transport. connect w history transport = Inr ()) \<and>
          (\<exists>line \<in> set lines. is_quit line)) \<or>
         ((\<forall>history transport. connect w history transport = Inr ()) \<and>
          (\<forall>history params. \<exists>e. create w history params = Inl e) \<and> lines \<noteq> []) \<or>
         (\<exists>e this1. connect_all w new_MCPClient mcpServers = (Throws e, this1)) \<or>
         (\<exists>u this1. connect_all w new_MCPClient mcpServers = (Returns u, this1) \<and>
                     fst (chatLoop_while w (loop_start this1) lines) \<noteq> Await)"
  shows "cleanups (trace this) = 1 \<and>
         (\<exists>before c.
            trace this = before @ Close c # (case c of Inl e \<Rightarrow> [] | Inr u \<Rightarrow> [Exit 0]) \<and>
            shutdown_events before = [] \<and>
            out = (case c of Inl e \<Rightarrow> Unhandled e | Inr u \<Rightarrow> Exited 0))"
proof -
  have "(\<exists>e this1. connect_all w new_MCPClient mcpServers = (Throws e, this1)) \<or>
        (\<exists>u this1. connect_all w new_MCPClient mcpServers = (Returns u, this1) \<and>
                    fst (chatLoop_while w (loop_start this1) lines) \<noteq> Await)"
    using ended
  proof (elim disjE conjE)
    assume resolves: "\<forall>history transport. connect w history transport = Inr ()"
      and sentinel: "\<exists>line \<in> set lines. is_quit line"
    obtain f this1 where c: "connect_all w new_MCPClient mcpServers = (f, this1)"
      by (cases "connect_all w new_MCPClient mcpServers")
    show ?thesis
    proof (cases f)
      case (Dies e)
      with c connect_all_not_Dies [OF resolves, of new_MCPClient mcpServers e]
      show ?thesis by simp
    next
      case (Throws e)
      with c show ?thesis by blast
    next
      case (Returns u)
      with c chatLoop_while_sentinel [OF sentinel, of w "loop_start this1"]
      show ?thesis by blast
    qed
  next
    assume resolves: "\<forall>history transport. connect w history transport = Inr ()"
      and down: "\<forall>history params. \<exists>e. create w history params = Inl e"
      and lines: "lines \<noteq> []"
    obtain f this1 where c: "connect_all w new_MCPClient mcpServers = (f, this1)"
      by (cases "connect_all w new_MCPClient mcpServers")
    show ?thesis
    proof (cases f)
      case (Dies e)
      with c connect_all_not_Dies [OF resolves, of new_MCPClient mcpServers e]
      show ?thesis by simp
    next
      case (Throws e)
      with c show ?thesis by blast
    next
      case (Returns u)
      with c chatLoop_while_api_down [OF down lines, of "loop_start this1"]
      show ?thesis by blast
    qed
  qed blast+
  from main_cleaned [OF this] run show ?thesis by simp
qed

text \<open>
  The theorem in the scripted world: a loop ended by the sentinel, a loop ended by a
  rejected completion with no sentinel in the input, a startup that throws, a close that
  is rejected, and a chat API that is down.
\<close>

theorem main_cleanup_once_witness:
  "fst (main script three_servers [''hello'', ''QUIT'', ''more'']) = Exited 0 \<and>
   cleanups (trace (snd (main script three_servers [''hello'', ''QUIT'', ''more'']))) = 1 \<and>
   fst (chatLoop_while script (loop_start (snd (connect_all script new_MCPClient three_servers)))
          [''fail'']) = Throw (Rejected ''429'') \<and>
   fst (main script three_servers [''fail'']) = Exited 0 \<and>
   cleanups (trace (snd (main script three_servers [''fail'']))) = 1 \<and>
   fst (connect_all second_listing_fails new_MCPClient three_servers) =
     Throws (Rejected ''Method not found'') \<and>
   fst (main second_listing_fails three_servers [''hello'']) = Exited 0 \<and>
   cleanups (trace (snd (main second_listing_fails three_servers [''hello'']))) = 1 \<and>
   fst (main close_rejected three_servers [''quit'']) = Unhandled (Rejected ''Not connected'') \<and>
   cleanups (trace (snd (main close_rejected three_servers [''quit'']))) = 1 \<and>
   fst (main api_down three_servers [''hello'']) = Exited 0 \<and>
   cleanups (trace (snd (main api_down three_servers [''hello'']))) = 1"
proof -
  have resolves: "\<forall>history transport. connect script history transport = Inr ()"
      "\<forall>history transport. connect close_rejected history transport = Inr ()"
      "\<forall>history transport. connect api_down history transport = Inr ()"
    by (simp_all add: script_def close_rejected_def api_down_def)
  have down: "\<forall>history params. \<exists>e. create api_down history params = Inl e"
    by (simp add: api_down_def)
  have o5: "fst (main api_down three_servers [''hello'']) = Exited 0"
    by code_simp
  have e5: "cleanups (trace (snd (main api_down three_servers [''hello'']))) = 1"
    using main_cleanup_once [where w = api_down and mcpServers = three_servers
            and lines = "[''hello'']", OF surjective_pairing] resolves(3) down
    by blast
  have sentinel: "\<exists>line \<in> set [''hello'', ''QUIT'', ''more'']. is_quit line"
      "\<exists>line \<in> set [''quit'']. is_quit line"
    by (simp_all add: is_quit_def)
  have c: "fst (connect_all script new_MCPClient three_servers) = Returns ()"
    by code_simp
  have l: "fst (chatLoop_while script
                 (loop_start (snd (connect_all script new_MCPClient three_servers)))
                 [''fail'']) = Throw (Rejected ''429'')"
    by code_simp
  have t: "fst (connect_all second_listing_fails new_MCPClient three_servers) =
             Throws (Rejected ''Method not found'')"
    by code_simp
  have o: "fst (main script three_servers [''hello'', ''QUIT'', ''more'']) = Exited 0"
      "fst (main script three_servers [''fail'']) = Exited 0"
      "fst (main second_listing_fails three_servers [''hello'']) = Exited 0"
      "fst (main close_rejected three_servers [''quit'']) = Unhandled (Rejected ''Not connected'')"
    by code_simp+
  from c have c': "connect_all script new_MCPClient three_servers =
      (Returns (), snd (connect_all script new_MCPClient three_servers))"
    by (metis prod.collapse)
  from t have t': "connect_all second_listing_fails new_MCPClient three_servers =
      (Throws (Rejected ''Method not found''),
       snd (connect_all second_listing_fails new_MCPClient three_servers))"
    by (metis prod.collapse)
  have e1: "cleanups (trace (snd (main script three_servers [''hello'', ''QUIT'', ''more'']))) = 1"
    using main_cleanup_once [where w = script and mcpServers = three_servers
            and lines = "[''hello'', ''QUIT'', ''more'']", OF surjective_pairing] resolves(1) sentinel(1)
    by blast
  have e2: "cleanups (trace (snd (main script three_servers [''fail'']))) = 1"
    using main_cleanup_once [where w = script and mcpServers = three_servers
            and lines = "[''fail'']", OF surjective_pairing] c' l
    by (metis loop_exit.distinct(5))
  have e3: "cleanups (trace (snd (main second_listing_fails three_servers [''hello'']))) = 1"
    using main_cleanup_once [where w = second_listing_fails and mcpServers = three_servers
            and lines = "[''hello'']", OF surjective_pairing] t'
    by blast
  have e4: "cleanups (trace (snd (main close_rejected three_servers [''quit'']))) = 1"
    using main_cleanup_once [where w = close_rejected and mcpServers = three_servers
            and lines = "[''quit'']", OF surjective_pairing] resolves(2) sentinel(2)
    by blast
  from o l t e1 e2 e3 e4 o5 e5 show ?thesis by simp
qed

text \<open>
  Claim C8 as it is written, on every execution, fails on two runs that end without
  any cleanup: the input ends at the prompt after the line \<^verbatim>\<open>hello\<close> and the process ends
  with status 0; the connection of the second server is rejected and the process ends
  with status 1.
\<close>

theorem main_cleanup_once_counterexample:
  "fst (main script three_servers [''hello'']) = Exited 0 \<and>
   status (fst (main script three_servers [''hello''])) = Some 0 \<and>
   cleanups (trace (snd (main script three_servers [''hello'']))) = 0 \<and>
   fst (main second_connect_rejected three_servers [''quit'']) =
     Unhandled (Rejected ''spawn python ENOENT'') \<and>
   status (fst (main second_connect_rejected three_servers [''quit''])) = Some 1 \<and>
   cleanups (trace (snd (main second_connect_rejected three_servers [''quit'']))) = 0"
  by code_simp

text \<open>
  Claim C9. A line that equals \<^verbatim>\<open>quit\<close> up to the case of its letters ends the loop: the
  line is read and logged, no completion call and no tool call is made for it, and the
  lines after it are not read. Every other line is passed to \<open>processQuery\<close>; when that
  returns, a newline and its result are printed and the loop goes on with the next
  line, and when it throws, the loop ends with the error.
\<close>

theorem chatLoop_quit_sentinel:
  "(is_quit msg \<longrightarrow>
      chatLoop_while w this (msg # rest) = (Break, after_line this msg) \<and>
      completion_calls (events_since this (snd (chatLoop_while w this (msg # rest)))) = [] \<and>
      tool_invocations (events_since this (snd (chatLoop_while w this (msg # rest)))) = []) \<and>
   (\<not> is_quit msg \<longrightarrow>
      chatLoop_while w this (msg # rest) =
        (case processQuery w (after_line this msg) msg of
           (Inl e, this3) \<Rightarrow> (Throw e, this3)
         | (Inr response, this3) \<Rightarrow>
             chatLoop_while w (emit (ConsoleLog [LStr (CHR 0x0A # response)]) this3) rest))"
  using chatLoop_while_quit [of msg w this rest] chatLoop_while_query [of msg w this rest]
  by (simp add: completion_calls_after_line)

text \<open>
  The theorem in the scripted world: \<^verbatim>\<open>QUIT\<close>, \<^verbatim>\<open>Quit\<close> and \<^verbatim>\<open>quit\<close> end the loop, and the
  line \<^verbatim>\<open>hello\<close> is answered and printed before the sentinel is read.
\<close>

theorem chatLoop_quit_sentinel_witness:
  "is_quit ''QUIT'' \<and> is_quit ''Quit'' \<and> is_quit ''quit'' \<and> \<not> is_quit ''quit '' \<and>
   \<not> is_quit ''hello'' \<and>
   chatLoop_while script new_MCPClient [''QUIT'', ''hello''] = (Break, after_line new_MCPClient ''QUIT'') \<and>
   chatLoop_while script new_MCPClient [''Quit''] = (Break, after_line new_MCPClient ''Quit'') \<and>
   chatLoop_while script new_MCPClient [''quit'', ''say hi''] = (Break, after_line new_MCPClient ''quit'') \<and>
   events_since new_MCPClient (snd (chatLoop_while script new_MCPClient [''hello'', ''quit''])) =
     [Question query_prompt (Some ''hello''),
      ConsoleLog [LStr ''Processing query...'', LStr ''hello''],
      Create (first_params new_MCPClient ''hello'') (Inr (completion_of (Some ''Hello!'') None)),
      ConsoleLog [LStr (CHR 0x0A # ''Hello!'')],
      Question query_prompt (Some ''quit''),
      ConsoleLog [LStr ''Processing query...'', LStr ''quit'']]"
proof -
  have q: "is_quit ''QUIT''" "is_quit ''Quit''" "is_quit ''quit''" "\<not> is_quit ''quit ''"
      "\<not> is_quit ''hello''"
    by (simp_all add: is_quit_def)
  have p: "processQuery script (after_line new_MCPClient ''hello'') ''hello'' =
             (Inr ''Hello!'',
              emit (Create (first_params new_MCPClient ''hello'') (Inr (completion_of (Some ''Hello!'') None)))
                (after_line new_MCPClient ''hello''))"
    by (simp add: script_defs after_line_def)
  from q p
    chatLoop_quit_sentinel [of "''QUIT''" script new_MCPClient "[''hello'']"]
    chatLoop_quit_sentinel [of "''Quit''" script new_MCPClient "[]"]
    chatLoop_quit_sentinel [of "''quit''" script new_MCPClient "[''say hi'']"]
    chatLoop_quit_sentinel [of "''hello''" script new_MCPClient "[''quit'']"]
    chatLoop_quit_sentinel [of "''quit''" script
       "emit (ConsoleLog [LStr (CHR 0x0A # ''Hello!'')]) (emit (Create (first_params new_MCPClient ''hello'') (Inr (completion_of (Some ''Hello!'') None)))
                (after_line new_MCPClient ''hello''))" "[]"]
  show ?thesis
    by (simp add: after_line_def events_since_def)
qed

end
